theory Spec2Isabelle
  imports Main
begin

section \<open>Python values, types and exceptions\<close>

text \<open>
  Exceptions by class and message. The messages of the exceptions this repository
  raises are the source's; those the interpreter raises are shortened. \<open>QueryError\<close>
  stands for an exception that the ORM or the database driver raises while a query
  runs, given by its class name and its message (\<open>FieldError\<close>, \<open>OperationalError\<close>,
  \<open>OverflowError\<close>, ...); it is kept apart from what this repository's code and the
  builtins raise.
\<close>

datatype exn =
    Exception string
  | TypeError string
  | ValueError string
  | OverflowError string
  | AttributeError string
  | NotImplementedError
  | QueryError string string

text \<open>
  The values a filter can hold or receive as a query parameter. A string is the list
  of its code points (code points below 256), a bytes object the list of its bytes. A
  float is not a number, an infinity (\<open>True\<close> for the negative one) or the finite value
  \<open>m * 2 ^ e\<close>. A date carries year, month and day; a datetime adds hour, minute and
  second. \<open>PObject\<close> is an instance of any other class, named, that defines no
  conversion of its own. \<open>datetime.datetime\<close> is a subclass of \<open>datetime.date\<close> and
  \<open>bool\<close> is a subclass of \<open>int\<close>, which the \<open>isinstance\<close> tests below respect.
\<close>

datatype pyfloat = FNaN | FInf bool | FFinite int int

datatype pyval =
    PNone
  | PBool bool
  | PInt int
  | PFloat pyfloat
  | PStr string
  | PBytes string
  | PList "pyval list"
  | PDate nat nat nat
  | PDateTime nat nat nat nat nat nat
  | PObject string

text \<open>
  Type objects as they occur in annotations: \<open>int\<close>, \<open>str\<close>, \<open>datetime.date\<close>,
  \<open>datetime.datetime\<close>, \<open>NoneType\<close>, \<open>List[t]\<close>, \<open>Union[...]\<close> and
  \<open>Annotated[t, metadata]\<close> (the metadata kept as its source text).
\<close>

datatype pytype =
    TInt
  | TStr
  | TDate
  | TDateTime
  | TNoneType
  | TList pytype
  | TUnion "pytype list"
  | TAnnotated pytype string

subsection \<open>The builtins \<open>int\<close>, \<open>str\<close> and \<open>isinstance\<close>\<close>

text \<open>
  \<open>int\<close> on a string or on bytes. Surrounding whitespace is skipped: tab, line feed,
  vertical tab, form feed, carriage return and space, and in a string also the code
  points 133 and 160. One sign is allowed; then comes a run of decimal digits with
  single underscores between digits. A run that is empty or has an underscore out of
  place is an invalid literal; then a run of more than 4300 digits exceeds the
  interpreter's default limit for integer string conversion; then anything left after
  the run is an invalid literal. All three are a \<open>ValueError\<close>.
\<close>

definition py_isspace :: "char \<Rightarrow> bool" where
  "py_isspace c = ((of_char c :: nat) \<in> {9, 10, 11, 12, 13, 32, 133, 160})"

definition bytes_isspace :: "char \<Rightarrow> bool" where
  "bytes_isspace c = ((of_char c :: nat) \<in> {9, 10, 11, 12, 13, 32})"

definition py_isdigit :: "char \<Rightarrow> bool" where
  "py_isdigit c = (48 \<le> (of_char c :: nat) \<and> (of_char c :: nat) \<le> 57)"

definition py_strip :: "(char \<Rightarrow> bool) \<Rightarrow> string \<Rightarrow> string" where
  "py_strip isspace s = rev (dropWhile isspace (rev (dropWhile isspace s)))"

fun digits_ok :: "bool \<Rightarrow> string \<Rightarrow> bool" where
  "digits_ok prev_digit [] = prev_digit"
| "digits_ok prev_digit (c # cs) =
     (if py_isdigit c then digits_ok True cs
      else if c = CHR ''_'' \<and> prev_digit then digits_ok False cs
      else False)"

definition digits_value :: "string \<Rightarrow> int" where
  "digits_value s =
     foldl (\<lambda>a c. if py_isdigit c then 10 * a + (int (of_char c) - 48) else a) 0 s"

definition int_max_str_digits :: nat where
  "int_max_str_digits = 4300"

definition int_of_text :: "(char \<Rightarrow> bool) \<Rightarrow> string \<Rightarrow> exn + int" where
  "int_of_text isspace s =
     (let t = py_strip isspace s;
          neg = (t \<noteq> [] \<and> hd t = CHR ''-'');
          u = (if t \<noteq> [] \<and> (hd t = CHR ''-'' \<or> hd t = CHR ''+'') then tl t else t);
          run = takeWhile (\<lambda>c. py_isdigit c \<or> c = CHR ''_'') u;
          rest = dropWhile (\<lambda>c. py_isdigit c \<or> c = CHR ''_'') u
      in if \<not> digits_ok False run then
           Inl (ValueError ''invalid literal for int() with base 10'')
         else if length (filter py_isdigit run) > int_max_str_digits then
           Inl (ValueError ''Exceeds the limit (4300 digits) for integer string conversion'')
         else if rest \<noteq> [] then
           Inl (ValueError ''invalid literal for int() with base 10'')
         else Inr (if neg then - digits_value run else digits_value run))"

definition int_of_str :: "string \<Rightarrow> exn + int" where
  "int_of_str s = int_of_text py_isspace s"

definition int_of_bytes :: "string \<Rightarrow> exn + int" where
  "int_of_bytes s = int_of_text bytes_isspace s"

text \<open>
  \<open>int\<close> on a float truncates towards zero; it refuses a float that is not a number
  with \<open>ValueError\<close> and an infinity with \<open>OverflowError\<close>.
\<close>

fun int_of_float :: "pyfloat \<Rightarrow> exn + int" where
  "int_of_float FNaN = Inl (ValueError ''cannot convert float NaN to integer'')"
| "int_of_float (FInf negative) = Inl (OverflowError ''cannot convert float infinity to integer'')"
| "int_of_float (FFinite m e) =
     Inr (if 0 \<le> e then m * 2 ^ nat e
          else if 0 \<le> m then m div 2 ^ nat (- e)
          else - ((- m) div 2 ^ nat (- e)))"

fun py_int :: "pyval \<Rightarrow> exn + int" where
  "py_int (PInt i) = Inr i"
| "py_int (PBool b) = Inr (if b then 1 else 0)"
| "py_int (PFloat x) = int_of_float x"
| "py_int (PStr s) = int_of_str s"
| "py_int (PBytes s) = int_of_bytes s"
| "py_int v = Inl (TypeError ''int() argument must be a string, a bytes-like object or a real number'')"

text \<open>
  \<open>str(v)\<close> returns a string for every value above. Its callers here discard the
  text, so only the outcome is kept.
\<close>

fun py_str :: "pyval \<Rightarrow> exn + unit" where
  "py_str v = Inr ()"

fun isinstance_list :: "pyval \<Rightarrow> bool" where
  "isinstance_list (PList xs) = True"
| "isinstance_list v = False"

fun isinstance_datetime :: "pyval \<Rightarrow> bool" where
  "isinstance_datetime (PDateTime y m d hh mm ss) = True"
| "isinstance_datetime v = False"

fun isinstance_date :: "pyval \<Rightarrow> bool" where
  "isinstance_date (PDate y m d) = True"
| "isinstance_date (PDateTime y m d hh mm ss) = True"
| "isinstance_date v = False"

section \<open>The ORM's queryset\<close>

text \<open>
  The ORM is an external collaborator. A queryset is represented by the model it
  selects from and the chain of \<open>filter\<close> calls made on it, each with its keyword
  arguments; \<open>filter\<close> returns a new queryset with one more call and runs no query.
  Awaiting a queryset runs the query, which returns rows or raises; what the database
  does with each queryset is a parameter of everything that awaits, \<open>None\<close> for rows
  and otherwise the class name and the message of the exception. Awaiting, like
  printing, is recorded as an event, whether or not the query then raises.
\<close>

type_synonym kwargs = "(string \<times> pyval) list"

record queryset =
  qs_model :: string
  qs_filters :: "kwargs list"

type_synonym database = "queryset \<Rightarrow> (string \<times> string) option"

definition qs_filter :: "queryset \<Rightarrow> kwargs \<Rightarrow> queryset" where
  "qs_filter qs kw = qs\<lparr>qs_filters := qs_filters qs @ [kw]\<rparr>"

datatype event =
    PrintFieldName string
  | PrintKwargs kwargs
  | PrintResult queryset
  | PrintQueryParams "(string \<times> pyval) list"
  | Await queryset

section \<open>filter\_fields.py: the field filters\<close>

subsection \<open>The class hierarchy\<close>

datatype filter_class =
    BaseFieldFilter
  | NumberFilter
  | CharFilter
  | InFilter
  | DateTimeFilter
  | DateFilter
  | BaseRangeFilter
  | NumberRangeFilter
  | DateRangeFilter
  | DateTimeRangeFilter

text \<open>The method resolution order of each class, up to (not including) \<open>object\<close>.\<close>

fun mro :: "filter_class \<Rightarrow> filter_class list" where
  "mro BaseFieldFilter = [BaseFieldFilter]"
| "mro BaseRangeFilter = [BaseRangeFilter, BaseFieldFilter]"
| "mro NumberRangeFilter = [NumberRangeFilter, BaseRangeFilter, BaseFieldFilter]"
| "mro c = [c, BaseFieldFilter]"

text \<open>
  The methods each class body defines, with whether the definition is decorated
  \<open>@abstractmethod\<close>.
\<close>

fun class_methods :: "filter_class \<Rightarrow> (string \<times> bool) list" where
  "class_methods BaseFieldFilter =
     [(''__init__'', False), (''filter_queryset'', True), (''to_internal_value'', True),
      (''to_dependencies'', False), (''_kwargs_builder'', False),
      (''_check_lookup_exr'', False), (''_method_filter'', False)]"
| "class_methods NumberFilter =
     [(''__init__'', False), (''to_internal_value'', False), (''filter_queryset'', False)]"
| "class_methods CharFilter =
     [(''__init__'', False), (''to_internal_value'', False), (''filter_queryset'', False)]"
| "class_methods InFilter =
     [(''__init__'', False), (''__annotations__'', False), (''to_internal_value'', False),
      (''filter_queryset'', False)]"
| "class_methods DateTimeFilter =
     [(''__init__'', False), (''to_internal_value'', False), (''_kwargs_builder'', False),
      (''filter_queryset'', False)]"
| "class_methods DateFilter =
     [(''__init__'', False), (''to_internal_value'', False), (''_kwargs_builder'', False),
      (''filter_queryset'', False)]"
| "class_methods BaseRangeFilter = [(''__init__'', False)]"
| "class_methods NumberRangeFilter =
     [(''__init__'', False), (''to_internal_value'', False), (''_kwargs_builder'', False),
      (''filter_queryset'', False)]"
| "class_methods DateRangeFilter = []"
| "class_methods DateTimeRangeFilter = []"

text \<open>
  Attribute lookup on a class walks its resolution order; the abstract methods of a
  class (\<open>ABCMeta\<close>'s \<open>__abstractmethods__\<close>) are the names that still resolve to an
  abstract definition.
\<close>

definition resolve_method :: "filter_class \<Rightarrow> string \<Rightarrow> bool option" where
  "resolve_method c name = map_of (concat (map class_methods (mro c))) name"

definition abstractmethods :: "filter_class \<Rightarrow> string list" where
  "abstractmethods c =
     remdups (filter (\<lambda>name. resolve_method c name = Some True)
                (map fst (concat (map class_methods (mro c)))))"

text \<open>The class attribute \<open>available_expr\<close>; \<open>None\<close> on the base classes.\<close>

fun available_expr :: "filter_class \<Rightarrow> string option list option" where
  "available_expr NumberFilter =
     Some [Some ''gt'', Some ''gte'', Some ''lt'', Some ''lte'', None]"
| "available_expr CharFilter =
     Some [Some ''iexact'', Some ''exact'', Some ''contains'', Some ''icontains'',
           Some ''startswith'', Some ''istartswith'', Some ''endswith'', Some ''iendswith'',
           None]"
| "available_expr InFilter = Some [None]"
| "available_expr DateTimeFilter =
     Some [Some ''exact'', Some ''iexact'', Some ''contains'', Some ''icontains'',
           Some ''gt'', Some ''gte'', Some ''lt'', Some ''lte'', Some ''range'',
           Some ''isnull'', Some ''year'', Some ''month'', Some ''day'', Some ''week_day'',
           Some ''hour'', Some ''minute'', Some ''second'', None]"
| "available_expr DateFilter =
     Some [Some ''exact'', Some ''iexact'', Some ''contains'', Some ''icontains'',
           Some ''gt'', Some ''gte'', Some ''lt'', Some ''lte'', Some ''range'',
           Some ''isnull'', Some ''year'', Some ''month'', Some ''day'', Some ''week_day'',
           Some ''hour'', Some ''minute'', Some ''second'', None]"
| "available_expr NumberRangeFilter = Some [Some ''gte'', Some ''gt'', None]"
| "available_expr c = None"

text \<open>
  The annotations each class body declares (\<open>None\<close> when it declares none, so that the
  class has no \<open>__annotations__\<close> of its own). \<open>InFilter\<close> rebinds the name to a
  property; \<open>NumberRangeFilter\<close> assigns \<open>value_min = int\<close> and \<open>value_max = int\<close> and
  annotates nothing at class level.
\<close>

fun class_annotations :: "filter_class \<Rightarrow> (string \<times> pytype) list option" where
  "class_annotations NumberFilter = Some [(''value'', TInt)]"
| "class_annotations CharFilter = Some [(''value'', TStr)]"
| "class_annotations DateTimeFilter = Some [(''value'', TDateTime)]"
| "class_annotations DateFilter = Some [(''value'', TDate)]"
| "class_annotations BaseRangeFilter = Some [(''value_min'', TInt), (''value_max'', TInt)]"
| "class_annotations c = None"

subsection \<open>Instances\<close>

text \<open>
  An instance: its class and the attributes \<open>__init__\<close> sets. \<open>fvalue\<close> is the
  attribute \<open>value\<close>, \<open>fmethod\<close> the attribute \<open>method\<close> (the name of a callable, never
  called) and \<open>in_annotations\<close> the attribute \<open>_annotations\<close>, which only \<open>InFilter\<close>
  sets.
\<close>

record field_filter =
  cls :: filter_class
  field_name :: string
  lookup_expr :: "string option"
  fvalue :: pyval
  fmethod :: "string option"
  in_annotations :: "(string \<times> pytype) list"

text \<open>
  Calling a class. \<open>object.__new__\<close> refuses a class that still has abstract methods,
  before \<open>__init__\<close> runs. \<open>type_field\<close> is a parameter of \<open>InFilter\<close> alone
  (default \<open>int\<close>).
\<close>

definition instantiate ::
  "filter_class \<Rightarrow> string \<Rightarrow> string option \<Rightarrow> pyval \<Rightarrow> string option \<Rightarrow> pytype option
    \<Rightarrow> exn + field_filter" where
  "instantiate c fname lookup v m type_field =
     (if abstractmethods c \<noteq> [] then
        Inl (TypeError ''Can't instantiate abstract class'')
      else if c \<noteq> InFilter \<and> type_field \<noteq> None then
        Inl (TypeError ''__init__() got an unexpected keyword argument 'type_field' '')
      else
        Inr \<lparr>cls = c, field_name = fname, lookup_expr = lookup, fvalue = v, fmethod = m,
             in_annotations =
               (if c = InFilter then
                  [(''value'',
                    TAnnotated
                      (TUnion [TList (case type_field of None \<Rightarrow> TInt | Some t \<Rightarrow> t),
                               TNoneType])
                      ''Query(...)'')]
                else [])\<rparr>)"

subsection \<open>Methods of \<open>BaseFieldFilter\<close>\<close>

definition kwargs_builder :: "field_filter \<Rightarrow> pyval \<Rightarrow> kwargs" where
  "kwargs_builder f v =
     (case lookup_expr f of
        Some e \<Rightarrow> [(field_name f @ ''__'' @ e, v)]
      | None \<Rightarrow> [(field_name f, v)])"

definition check_lookup_exr :: "field_filter \<Rightarrow> exn + unit" where
  "check_lookup_exr f =
     (case available_expr (cls f) of
        None \<Rightarrow> Inl (TypeError ''object of type NoneType is not iterable'')
      | Some allowed \<Rightarrow>
          if lookup_expr f \<notin> set allowed then
            Inl (Exception (''Invalid lookup expression: '' @
                   (case lookup_expr f of None \<Rightarrow> ''None'' | Some e \<Rightarrow> e)))
          else Inr ())"

subsection \<open>\<open>NumberFilter\<close>\<close>

text \<open>
  \<open>to_internal_value\<close> calls \<open>int\<close> on the attribute and replaces a \<open>TypeError\<close> by
  its own; any other exception of \<open>int\<close> passes through.
\<close>

definition NumberFilter_to_internal_value :: "field_filter \<Rightarrow> exn + unit" where
  "NumberFilter_to_internal_value f =
     (case py_int (fvalue f) of
        Inl (TypeError m) \<Rightarrow> Inl (TypeError ''Invalid type'')
      | Inl e \<Rightarrow> Inl e
      | Inr i \<Rightarrow> Inr ())"

text \<open>
  Every \<open>filter_queryset\<close> returns the instance as the call leaves it, the events of
  the call, and the exception raised or the queryset returned. The test is on the
  attribute \<open>value\<close>; the predicate is built from the argument \<open>value\<close>.
\<close>

definition NumberFilter_filter_queryset ::
  "field_filter \<Rightarrow> queryset \<Rightarrow> pyval \<Rightarrow> field_filter \<times> event list \<times> (exn + queryset)" where
  "NumberFilter_filter_queryset f qs v =
     (if fvalue f = PNone then (f, [], Inr qs)
      else case check_lookup_exr f of
        Inl e \<Rightarrow> (f, [], Inl e)
      | Inr u \<Rightarrow>
         (case NumberFilter_to_internal_value f of
            Inl e \<Rightarrow> (f, [], Inl e)
          | Inr u' \<Rightarrow> (f, [], Inr (qs_filter qs (kwargs_builder f v)))))"

subsection \<open>\<open>CharFilter\<close>\<close>

definition CharFilter_to_internal_value :: "field_filter \<Rightarrow> exn + unit" where
  "CharFilter_to_internal_value f =
     (case py_str (fvalue f) of
        Inl (TypeError m) \<Rightarrow> Inl (TypeError ''Invalid type'')
      | Inl e \<Rightarrow> Inl e
      | Inr s \<Rightarrow> Inr ())"

definition CharFilter_filter_queryset ::
  "field_filter \<Rightarrow> queryset \<Rightarrow> pyval \<Rightarrow> field_filter \<times> event list \<times> (exn + queryset)" where
  "CharFilter_filter_queryset f qs v =
     (if fvalue f = PNone then (f, [], Inr qs)
      else case check_lookup_exr f of
        Inl e \<Rightarrow> (f, [], Inl e)
      | Inr u \<Rightarrow>
         (case CharFilter_to_internal_value f of
            Inl e \<Rightarrow> (f, [], Inl e)
          | Inr u' \<Rightarrow> (f, [], Inr (qs_filter qs (kwargs_builder f v)))))"

subsection \<open>\<open>InFilter\<close>\<close>

definition InFilter_to_internal_value :: "field_filter \<Rightarrow> exn + unit" where
  "InFilter_to_internal_value f =
     (if \<not> isinstance_list (fvalue f) then Inl (TypeError ''Invalid type'') else Inr ())"

text \<open>
  \<open>InFilter.filter_queryset\<close> does not call \<open>_check_lookup_exr\<close>: it assigns
  \<open>'in'\<close> to the instance's \<open>lookup_expr\<close>.
\<close>

definition InFilter_filter_queryset ::
  "field_filter \<Rightarrow> queryset \<Rightarrow> pyval \<Rightarrow> field_filter \<times> event list \<times> (exn + queryset)" where
  "InFilter_filter_queryset f qs v =
     (if fvalue f = PNone then (f, [], Inr qs)
      else let f' = f\<lparr>lookup_expr := Some ''in''\<rparr> in
        case InFilter_to_internal_value f' of
          Inl e \<Rightarrow> (f', [], Inl e)
        | Inr u \<Rightarrow> (f', [], Inr (qs_filter qs (kwargs_builder f' v))))"

subsection \<open>\<open>DateTimeFilter\<close>\<close>

definition DateTimeFilter_to_internal_value :: "field_filter \<Rightarrow> exn + unit" where
  "DateTimeFilter_to_internal_value f =
     (if \<not> isinstance_datetime (fvalue f) then Inl (TypeError ''Invalid type'') else Inr ())"

definition DateTimeFilter_kwargs_builder :: "field_filter \<Rightarrow> pyval \<Rightarrow> kwargs" where
  "DateTimeFilter_kwargs_builder f v =
     (case lookup_expr f of
        Some e \<Rightarrow> [(field_name f @ ''__'' @ e, v)]
      | None \<Rightarrow> [(field_name f, v)])"

definition DateTimeFilter_filter_queryset ::
  "field_filter \<Rightarrow> queryset \<Rightarrow> pyval \<Rightarrow> field_filter \<times> event list \<times> (exn + queryset)" where
  "DateTimeFilter_filter_queryset f qs v =
     (if fvalue f = PNone then (f, [], Inr qs)
      else case check_lookup_exr f of
        Inl e \<Rightarrow> (f, [], Inl e)
      | Inr u \<Rightarrow>
         (case DateTimeFilter_to_internal_value f of
            Inl e \<Rightarrow> (f, [], Inl e)
          | Inr u' \<Rightarrow> (f, [], Inr (qs_filter qs (DateTimeFilter_kwargs_builder f v)))))"

subsection \<open>\<open>DateFilter\<close>\<close>

definition DateFilter_to_internal_value :: "field_filter \<Rightarrow> exn + unit" where
  "DateFilter_to_internal_value f =
     (if \<not> isinstance_date (fvalue f) then Inl (TypeError ''Invalid type'') else Inr ())"

definition DateFilter_kwargs_builder :: "field_filter \<Rightarrow> pyval \<Rightarrow> kwargs" where
  "DateFilter_kwargs_builder f v =
     (case lookup_expr f of
        Some e \<Rightarrow> [(field_name f @ ''__'' @ e, v)]
      | None \<Rightarrow> [(field_name f, v)])"

definition DateFilter_filter_queryset ::
  "field_filter \<Rightarrow> queryset \<Rightarrow> pyval \<Rightarrow> field_filter \<times> event list \<times> (exn + queryset)" where
  "DateFilter_filter_queryset f qs v =
     (if fvalue f = PNone then (f, [], Inr qs)
      else case check_lookup_exr f of
        Inl e \<Rightarrow> (f, [], Inl e)
      | Inr u \<Rightarrow>
         (case DateFilter_to_internal_value f of
            Inl e \<Rightarrow> (f, [], Inl e)
          | Inr u' \<Rightarrow> (f, [], Inr (qs_filter qs (DateFilter_kwargs_builder f v)))))"

subsection \<open>\<open>NumberRangeFilter\<close>\<close>

definition NumberRangeFilter_to_internal_value :: "field_filter \<Rightarrow> exn + unit" where
  "NumberRangeFilter_to_internal_value f =
     (case py_int (fvalue f) of
        Inl (TypeError m) \<Rightarrow> Inl (TypeError ''Invalid type'')
      | Inl e \<Rightarrow> Inl e
      | Inr i \<Rightarrow> Inr ())"

definition NumberRangeFilter_kwargs_builder ::
  "field_filter \<Rightarrow> pyval \<Rightarrow> event list \<times> kwargs" where
  "NumberRangeFilter_kwargs_builder f v =
     (case lookup_expr f of
        Some e \<Rightarrow> ([PrintFieldName (field_name f)], [(field_name f @ ''__'' @ e, v)])
      | None \<Rightarrow> ([], [(field_name f, v)]))"

text \<open>
  After chaining the filter call, \<open>NumberRangeFilter.filter_queryset\<close> awaits the new
  queryset. When the query raises, the exception ends the call; otherwise the call
  prints what the query returned and returns the queryset.
\<close>

definition NumberRangeFilter_filter_queryset ::
  "database \<Rightarrow> field_filter \<Rightarrow> queryset \<Rightarrow> pyval
     \<Rightarrow> field_filter \<times> event list \<times> (exn + queryset)" where
  "NumberRangeFilter_filter_queryset db f qs v =
     (if fvalue f = PNone then (f, [], Inr qs)
      else case check_lookup_exr f of
        Inl e \<Rightarrow> (f, [], Inl e)
      | Inr u \<Rightarrow>
         (case NumberRangeFilter_to_internal_value f of
            Inl e \<Rightarrow> (f, [], Inl e)
          | Inr u' \<Rightarrow>
             (case NumberRangeFilter_kwargs_builder f v of
                (evs, kw) \<Rightarrow>
                  (let qs' = qs_filter qs kw
                   in case db qs' of
                        Some (c, m) \<Rightarrow>
                          (f, evs @ [PrintKwargs kw, Await qs'], Inl (QueryError c m))
                      | None \<Rightarrow>
                          (f, evs @ [PrintKwargs kw, Await qs', PrintResult qs'],
                           Inr qs')))))"

subsection \<open>Method dispatch\<close>

text \<open>
  A call through an instance runs the definition its class resolves to; the database
  is handed to the one \<open>filter_queryset\<close> that awaits. The classes
  that define no \<open>filter_queryset\<close> or \<open>to_internal_value\<close> resolve to the abstract
  ones of \<open>BaseFieldFilter\<close>, which raise \<open>NotImplementedError\<close>.
\<close>

definition build_kwargs :: "field_filter \<Rightarrow> pyval \<Rightarrow> event list \<times> kwargs" where
  "build_kwargs f v =
     (case cls f of
        DateTimeFilter \<Rightarrow> ([], DateTimeFilter_kwargs_builder f v)
      | DateFilter \<Rightarrow> ([], DateFilter_kwargs_builder f v)
      | NumberRangeFilter \<Rightarrow> NumberRangeFilter_kwargs_builder f v
      | _ \<Rightarrow> ([], kwargs_builder f v))"

definition to_internal_value :: "field_filter \<Rightarrow> exn + unit" where
  "to_internal_value f =
     (case cls f of
        NumberFilter \<Rightarrow> NumberFilter_to_internal_value f
      | CharFilter \<Rightarrow> CharFilter_to_internal_value f
      | InFilter \<Rightarrow> InFilter_to_internal_value f
      | DateTimeFilter \<Rightarrow> DateTimeFilter_to_internal_value f
      | DateFilter \<Rightarrow> DateFilter_to_internal_value f
      | NumberRangeFilter \<Rightarrow> NumberRangeFilter_to_internal_value f
      | _ \<Rightarrow> Inl NotImplementedError)"

definition filter_queryset ::
  "database \<Rightarrow> field_filter \<Rightarrow> queryset \<Rightarrow> pyval
     \<Rightarrow> field_filter \<times> event list \<times> (exn + queryset)" where
  "filter_queryset db f qs v =
     (case cls f of
        NumberFilter \<Rightarrow> NumberFilter_filter_queryset f qs v
      | CharFilter \<Rightarrow> CharFilter_filter_queryset f qs v
      | InFilter \<Rightarrow> InFilter_filter_queryset f qs v
      | DateTimeFilter \<Rightarrow> DateTimeFilter_filter_queryset f qs v
      | DateFilter \<Rightarrow> DateFilter_filter_queryset f qs v
      | NumberRangeFilter \<Rightarrow> NumberRangeFilter_filter_queryset db f qs v
      | _ \<Rightarrow> (f, [], Inl NotImplementedError))"

text \<open>The six classes that define every abstract method.\<close>

definition concrete_classes :: "filter_class list" where
  "concrete_classes =
     [NumberFilter, CharFilter, InFilter, DateTimeFilter, DateFilter, NumberRangeFilter]"

section \<open>filterset.py: the dependency schema and the filter set\<close>

subsection \<open>\<open>Dependencies\<close>\<close>

text \<open>
  A schema class: its name and its \<open>model_fields\<close>, a dictionary in insertion
  order. \<open>FieldInfo\<close> keeps an annotation and a default.
\<close>

record field_info =
  annotation :: pytype
  default :: pyval

record dependencies =
  dep_name :: string
  model_fields :: "(string \<times> field_info) list"

text \<open>
  A field definition is a tuple or a single default value. The items of a tuple are
  type objects or \<open>None\<close>, as in the one call this repository makes, where the tuple
  is the annotation of the filter's value (or \<open>None\<close>) and the default \<open>None\<close>.
\<close>

datatype field_def = FTuple "pytype option list" | FPlain pyval

text \<open>
  \<open>Optional[x]\<close> for a type or \<open>None\<close>: \<open>Optional[None]\<close> is \<open>NoneType\<close> and
  \<open>Optional[t]\<close> is \<open>Union[t, None]\<close> (a union that already has \<open>None\<close> is left as
  it is).
\<close>

fun optional_type :: "pytype \<Rightarrow> pytype" where
  "optional_type TNoneType = TNoneType"
| "optional_type (TUnion ts) =
     (if TNoneType \<in> set ts then TUnion ts else TUnion (ts @ [TNoneType]))"
| "optional_type t = TUnion [t, TNoneType]"

fun py_Optional :: "pytype option \<Rightarrow> pytype" where
  "py_Optional None = TNoneType"
| "py_Optional (Some t) = optional_type t"

text \<open>Assignment to a dictionary key, and \<open>dict.update\<close>.\<close>

fun dict_set :: "(string \<times> 'a) list \<Rightarrow> string \<Rightarrow> 'a \<Rightarrow> (string \<times> 'a) list" where
  "dict_set [] k v = [(k, v)]"
| "dict_set ((k', v') # d) k v = (if k' = k then (k, v) # d else (k', v') # dict_set d k v)"

definition dict_update :: "(string \<times> 'a) list \<Rightarrow> (string \<times> 'a) list \<Rightarrow> (string \<times> 'a) list" where
  "dict_update d new = foldl (\<lambda>acc (k, v). dict_set acc k v) d new"

text \<open>
  The loop of \<open>add_fields\<close> over the field definitions, building \<open>new_fields\<close>. A
  tuple must unpack into two items, the annotation and the default. The default handed
  in is not used: every field gets the default \<open>None\<close>. The dictionary
  \<open>new_annotations\<close> that the loop also fills is never read, and rebuilding the
  schema class (\<open>model_rebuild\<close>) is the schema library's own work; neither is part of
  the result.
\<close>

fun add_fields_loop ::
  "(string \<times> field_def) list \<Rightarrow> (string \<times> field_info) list \<Rightarrow> exn + (string \<times> field_info) list" where
  "add_fields_loop [] new_fields = Inr new_fields"
| "add_fields_loop ((f_name, f_def) # rest) new_fields =
     (case (case f_def of
              FTuple [f_annotation, f_value] \<Rightarrow> Inr f_annotation
            | FTuple items \<Rightarrow>
                Inl (Exception (''field definitions should either be a tuple of (<type>, <default>) or just a '' @
                                ''default value, unfortunately this means tuples as '' @
                                ''default values are not allowed''))
            | FPlain f_value \<Rightarrow> Inr None) of
        Inl e \<Rightarrow> Inl e
      | Inr f_annotation \<Rightarrow>
          add_fields_loop rest
            (dict_set new_fields f_name
               \<lparr>annotation = py_Optional f_annotation, default = PNone\<rparr>))"

text \<open>
  \<open>add_fields\<close> is a class method that takes the field definitions as keyword
  arguments: a field named \<open>cls\<close> collides with the method's first parameter, and
  the call raises \<open>TypeError\<close> before the body runs.
\<close>

definition add_fields :: "dependencies \<Rightarrow> (string \<times> field_def) list \<Rightarrow> exn + dependencies" where
  "add_fields c field_definitions =
     (if ''cls'' \<in> set (map fst field_definitions) then
        Inl (TypeError ''add_fields() got multiple values for argument cls'')
      else case add_fields_loop field_definitions [] of
        Inl e \<Rightarrow> Inl e
      | Inr new_fields \<Rightarrow> Inr (c\<lparr>model_fields := dict_update (model_fields c) new_fields\<rparr>))"

definition create_dynamic_class :: "string \<Rightarrow> dependencies" where
  "create_dynamic_class name = \<lparr>dep_name = name, model_fields = []\<rparr>"

subsection \<open>\<open>BaseFilterSet\<close>\<close>

text \<open>
  The filter objects live in a store, addressed by number: a filter-set class refers
  to its filters, so that two attributes (and every instance of the class) can share
  one filter object. The dictionary of a filter-set class lists its attributes in
  declaration order; an attribute is either a field filter or something else.
\<close>

type_synonym heap = "nat \<Rightarrow> field_filter"

datatype attribute = FieldFilterAttr nat | OtherAttr

record orm_field =
  model_field_name :: string

record orm_model =
  model_name :: string
  fields_map :: "(string \<times> orm_field) list"

record filterset_class =
  fs_name :: string
  fs_model :: "orm_model option"
  fs_dict :: "(string \<times> attribute) list"

definition get_queryset :: "filterset_class \<Rightarrow> exn + queryset" where
  "get_queryset c =
     (case fs_model c of
        None \<Rightarrow> Inl (AttributeError ''NoneType object has no attribute all'')
      | Some m \<Rightarrow> Inr \<lparr>qs_model = model_name m, qs_filters = []\<rparr>)"

fun fields_loop :: "string list \<Rightarrow> string list \<Rightarrow> exn + unit" where
  "fields_loop [] model_flds = Inr ()"
| "fields_loop (fname # rest) model_flds =
     (if fname \<notin> set model_flds then Inl (Exception ''this field does not belong to model'')
      else fields_loop rest model_flds)"

definition model_field_names :: "orm_model \<Rightarrow> string list" where
  "model_field_names m = map (\<lambda>(k, fld). model_field_name fld) (fields_map m)"

definition filter_fields_of :: "(string \<times> attribute) list \<Rightarrow> heap \<Rightarrow> string list" where
  "filter_fields_of attr h =
     concat (map (\<lambda>(key, a). case a of FieldFilterAttr p \<Rightarrow> [field_name (h p)] | OtherAttr \<Rightarrow> [])
               attr)"

definition check_fields_appearance ::
  "(string \<times> attribute) list \<Rightarrow> orm_model option \<Rightarrow> heap \<Rightarrow> exn + unit" where
  "check_fields_appearance attr model h =
     (let filter_fields = filter_fields_of attr h in
      case model of
        None \<Rightarrow> Inl (AttributeError ''NoneType object has no attribute _meta'')
      | Some m \<Rightarrow> fields_loop filter_fields (model_field_names m))"

text \<open>
  \<open>value.__annotations__\<close> on a filter object: the property of \<open>InFilter\<close>, and
  otherwise the annotations of the first class in the resolution order that declares
  any.
\<close>

definition instance_annotations :: "field_filter \<Rightarrow> exn + (string \<times> pytype) list" where
  "instance_annotations f =
     (if cls f = InFilter then Inr (in_annotations f)
      else case List.map_filter class_annotations (mro (cls f)) of
        [] \<Rightarrow> Inl (AttributeError ''object has no attribute __annotations__'')
      | anns # others \<Rightarrow> Inr anns)"

fun dependencies_loop ::
  "(string \<times> attribute) list \<Rightarrow> heap \<Rightarrow> dependencies \<Rightarrow> exn + dependencies" where
  "dependencies_loop [] h dc = Inr dc"
| "dependencies_loop ((key, OtherAttr) # rest) h dc = dependencies_loop rest h dc"
| "dependencies_loop ((key, FieldFilterAttr p) # rest) h dc =
     (case instance_annotations (h p) of
        Inl e \<Rightarrow> Inl e
      | Inr anns \<Rightarrow>
          (case add_fields dc [(key, FTuple [map_of anns ''value'', None])] of
             Inl e \<Rightarrow> Inl e
           | Inr dc' \<Rightarrow> dependencies_loop rest h dc'))"

definition to_dependencies :: "filterset_class \<Rightarrow> heap \<Rightarrow> exn + dependencies" where
  "to_dependencies c h =
     (let DynamicClass = create_dynamic_class (fs_name c @ ''Dependencies'') in
      case check_fields_appearance (fs_dict c) (fs_model c) h of
        Inl e \<Rightarrow> Inl e
      | Inr u \<Rightarrow> dependencies_loop (fs_dict c) h DynamicClass)"

subsection \<open>\<open>FilterSet\<close>\<close>

text \<open>
  \<open>FilterSet.filter_queryset\<close> on an instance holding \<open>query_params\<close> (a dictionary,
  as an association list). The loop assigns to the filter object in the store, calls
  it, and keeps what the call left of the object. The result is the store after the
  call, the events, and the exception or the final queryset (the instance's
  \<open>queryset\<close> attribute).
\<close>

fun filter_loop ::
  "database \<Rightarrow> (string \<times> attribute) list \<Rightarrow> (string \<times> pyval) list \<Rightarrow> heap \<Rightarrow> queryset
     \<Rightarrow> heap \<times> event list \<times> (exn + queryset)" where
  "filter_loop db [] query_params h qs = (h, [], Inr qs)"
| "filter_loop db ((key, OtherAttr) # rest) query_params h qs =
     filter_loop db rest query_params h qs"
| "filter_loop db ((key, FieldFilterAttr p) # rest) query_params h qs =
     (case map_of query_params key of
        None \<Rightarrow> filter_loop db rest query_params h qs
      | Some v \<Rightarrow>
          (case filter_queryset db ((h p)\<lparr>fvalue := v\<rparr>) qs v of
             (f', evs, Inl e) \<Rightarrow> (h(p := f'), PrintQueryParams query_params # evs, Inl e)
           | (f', evs, Inr qs') \<Rightarrow>
               (case filter_loop db rest query_params (h(p := f')) qs' of
                  (h', evs', r) \<Rightarrow> (h', PrintQueryParams query_params # evs @ evs', r))))"

definition FilterSet_filter_queryset ::
  "database \<Rightarrow> filterset_class \<Rightarrow> (string \<times> pyval) list \<Rightarrow> heap
     \<Rightarrow> heap \<times> event list \<times> (exn + queryset)" where
  "FilterSet_filter_queryset db c query_params h =
     (case get_queryset c of
        Inl e \<Rightarrow> (h, [], Inl e)
      | Inr qs \<Rightarrow> filter_loop db (fs_dict c) query_params h qs)"

section \<open>Vocabulary of the properties\<close>

text \<open>
  The lookup test of \<open>_check_lookup_exr\<close> as a predicate, and the classes whose
  \<open>filter_queryset\<close> calls it.
\<close>

definition lookup_allowed :: "field_filter \<Rightarrow> bool" where
  "lookup_allowed f =
     (case available_expr (cls f) of
        Some allowed \<Rightarrow> lookup_expr f \<in> set allowed
      | None \<Rightarrow> False)"

definition checking_classes :: "filter_class list" where
  "checking_classes = [NumberFilter, CharFilter, DateTimeFilter, DateFilter, NumberRangeFilter]"

text \<open>
  What of a filter object decides the predicate it builds: its class, its field name
  and its lookup, which for \<open>InFilter\<close> is \<open>'in'\<close> whatever the attribute holds.
  \<open>predicate_of\<close> is that predicate for a value, and \<open>applied_predicates\<close> lists, in
  declaration order, the predicates of the declared filters whose attribute name is a
  key of the query parameters with a value other than \<open>None\<close>.
\<close>

definition shape :: "field_filter \<Rightarrow> filter_class \<times> string \<times> string option" where
  "shape f = (cls f, field_name f, if cls f = InFilter then Some ''in'' else lookup_expr f)"

definition predicate_of :: "field_filter \<Rightarrow> pyval \<Rightarrow> kwargs" where
  "predicate_of f v =
     (case shape f of
        (c, name, None) \<Rightarrow> [(name, v)]
      | (c, name, Some e) \<Rightarrow> [(name @ ''__'' @ e, v)])"

definition applied_predicates ::
  "(string \<times> attribute) list \<Rightarrow> (string \<times> pyval) list \<Rightarrow> heap \<Rightarrow> kwargs list" where
  "applied_predicates attrs query_params h =
     concat (map (\<lambda>(key, a).
        case a of
          OtherAttr \<Rightarrow> []
        | FieldFilterAttr p \<Rightarrow>
            (case map_of query_params key of
               None \<Rightarrow> []
             | Some v \<Rightarrow> if v = PNone then [] else [predicate_of (h p) v])) attrs)"

text \<open>
  Two conditions on the declared filters of a filter-set class: the filter objects are
  of the six concrete classes, and no filter attribute is named \<open>cls\<close>.
\<close>

definition filters_concrete :: "(string \<times> attribute) list \<Rightarrow> heap \<Rightarrow> bool" where
  "filters_concrete attrs h =
     list_all (\<lambda>(key, a).
        case a of OtherAttr \<Rightarrow> True | FieldFilterAttr p \<Rightarrow> cls (h p) \<in> set concrete_classes) attrs"

definition no_cls_filter :: "(string \<times> attribute) list \<Rightarrow> bool" where
  "no_cls_filter attrs =
     list_all (\<lambda>(key, a). case a of OtherAttr \<Rightarrow> True | FieldFilterAttr p \<Rightarrow> key \<noteq> ''cls'')
       attrs"

text \<open>
  The values \<open>FilterSet.filter_queryset\<close> assigns to the filter object at an address,
  in the order of the assignments: one for each attribute that refers to it and is
  a key of the query parameters.
\<close>

definition assigned :: "(string \<times> attribute) list \<Rightarrow> (string \<times> pyval) list \<Rightarrow> nat \<Rightarrow> pyval list" where
  "assigned attrs query_params p =
     concat (map (\<lambda>(key, a).
        case a of
          OtherAttr \<Rightarrow> []
        | FieldFilterAttr p' \<Rightarrow>
            if p' = p then (case map_of query_params key of None \<Rightarrow> [] | Some v \<Rightarrow> [v])
            else []) attrs)"

text \<open>
  The annotation \<open>value.__annotations__.get('value')\<close> of a filter object, and the
  schema fields \<open>to_dependencies\<close> makes of the declared filters.
\<close>

definition value_annotation :: "field_filter \<Rightarrow> pytype option" where
  "value_annotation f =
     (case instance_annotations f of Inl e \<Rightarrow> None | Inr anns \<Rightarrow> map_of anns ''value'')"

definition expected_fields :: "(string \<times> attribute) list \<Rightarrow> heap \<Rightarrow> (string \<times> field_info) list" where
  "expected_fields attrs h =
     concat (map (\<lambda>(key, a).
        case a of
          OtherAttr \<Rightarrow> []
        | FieldFilterAttr p \<Rightarrow>
            [(key, \<lparr>annotation = py_Optional (value_annotation (h p)),
                    default = PNone\<rparr>)]) attrs)"

subsection \<open>Example objects\<close>

definition db_ok :: database where
  "db_ok = (\<lambda>qs. None)"

definition db_down :: database where
  "db_down = (\<lambda>qs. Some (''OperationalError'', ''connection refused''))"

definition users_all :: queryset where
  "users_all = \<lparr>qs_model = ''User'', qs_filters = []\<rparr>"

definition age_gte :: field_filter where
  "age_gte = \<lparr>cls = NumberFilter, field_name = ''age'', lookup_expr = Some ''gte'',
              fvalue = PNone, fmethod = None, in_annotations = []\<rparr>"

definition age_in :: field_filter where
  "age_in = \<lparr>cls = NumberFilter, field_name = ''age'', lookup_expr = Some ''in'',
             fvalue = PInt 3, fmethod = None, in_annotations = []\<rparr>"

definition age_list :: field_filter where
  "age_list = \<lparr>cls = NumberFilter, field_name = ''age'', lookup_expr = None,
               fvalue = PList [], fmethod = None, in_annotations = []\<rparr>"

definition age_abc :: field_filter where
  "age_abc = \<lparr>cls = NumberFilter, field_name = ''age'', lookup_expr = None,
              fvalue = PStr ''abc'', fmethod = None, in_annotations = []\<rparr>"

definition born_abc :: field_filter where
  "born_abc = \<lparr>cls = DateFilter, field_name = ''born'', lookup_expr = None,
               fvalue = PStr ''abc'', fmethod = None, in_annotations = []\<rparr>"

definition tags_gt :: field_filter where
  "tags_gt = \<lparr>cls = InFilter, field_name = ''tag_id'', lookup_expr = Some ''gt'',
              fvalue = PList [PInt 1], fmethod = None,
              in_annotations =
                [(''value'', TAnnotated (TUnion [TList TInt, TNoneType]) ''Query(...)'')]\<rparr>"

definition price_gte :: field_filter where
  "price_gte = \<lparr>cls = NumberRangeFilter, field_name = ''price'', lookup_expr = Some ''gte'',
                fvalue = PInt 10, fmethod = None, in_annotations = []\<rparr>"

text \<open>
  A model, a store of filter objects and three filter-set classes over it. Address 0
  holds \<open>NumberFilter('age', 'gte')\<close>.
\<close>

definition user_model :: orm_model where
  "user_model =
     \<lparr>model_name = ''User'',
      fields_map =
        [(''id'', \<lparr>model_field_name = ''id''\<rparr>), (''age'', \<lparr>model_field_name = ''age''\<rparr>),
         (''name'', \<lparr>model_field_name = ''name''\<rparr>),
         (''tag_id'', \<lparr>model_field_name = ''tag_id''\<rparr>),
         (''price'', \<lparr>model_field_name = ''price''\<rparr>)]\<rparr>"

definition name_contains :: field_filter where
  "name_contains = \<lparr>cls = CharFilter, field_name = ''name'', lookup_expr = Some ''contains'',
                    fvalue = PNone, fmethod = None, in_annotations = []\<rparr>"

definition tags_in :: field_filter where
  "tags_in = \<lparr>cls = InFilter, field_name = ''tag_id'', lookup_expr = None,
              fvalue = PNone, fmethod = None,
              in_annotations =
                [(''value'', TAnnotated (TUnion [TList TInt, TNoneType]) ''Query(...)'')]\<rparr>"

definition price_plain :: field_filter where
  "price_plain = \<lparr>cls = NumberRangeFilter, field_name = ''price'', lookup_expr = None,
                  fvalue = PNone, fmethod = None, in_annotations = []\<rparr>"

definition nick_exact :: field_filter where
  "nick_exact = \<lparr>cls = CharFilter, field_name = ''nickname'', lookup_expr = Some ''exact'',
                 fvalue = PNone, fmethod = None, in_annotations = []\<rparr>"

definition store0 :: heap where
  "store0 = (\<lambda>p. age_gte)(1 := name_contains, 2 := tags_in, 3 := price_plain, 4 := nick_exact)"

definition UserFilterSet :: filterset_class where
  "UserFilterSet =
     \<lparr>fs_name = ''UserFilterSet'', fs_model = Some user_model,
      fs_dict = [(''__module__'', OtherAttr), (''model'', OtherAttr),
                 (''age'', FieldFilterAttr 0), (''name'', FieldFilterAttr 1),
                 (''tags'', FieldFilterAttr 2)]\<rparr>"

definition ProductFilterSet :: filterset_class where
  "ProductFilterSet =
     \<lparr>fs_name = ''ProductFilterSet'', fs_model = Some user_model,
      fs_dict = [(''model'', OtherAttr), (''name'', FieldFilterAttr 1),
                 (''price'', FieldFilterAttr 3)]\<rparr>"

definition NickFilterSet :: filterset_class where
  "NickFilterSet =
     \<lparr>fs_name = ''NickFilterSet'', fs_model = Some user_model,
      fs_dict = [(''model'', OtherAttr), (''age'', FieldFilterAttr 0),
                 (''nick'', FieldFilterAttr 4)]\<rparr>"

text \<open>The query parameters \<open>tags=1&tags=2&age=18&page=2\<close>.\<close>

definition params0 :: "(string \<times> pyval) list" where
  "params0 = [(''tags'', PList [PInt 1, PInt 2]), (''age'', PInt 18), (''page'', PInt 2)]"

section \<open>Properties of the field filters\<close>

lemmas fq_defs = filter_queryset_def NumberFilter_filter_queryset_def
  CharFilter_filter_queryset_def InFilter_filter_queryset_def
  DateTimeFilter_filter_queryset_def DateFilter_filter_queryset_def
  NumberRangeFilter_filter_queryset_def

lemmas kb_defs = build_kwargs_def kwargs_builder_def DateTimeFilter_kwargs_builder_def
  DateFilter_kwargs_builder_def NumberRangeFilter_kwargs_builder_def

lemmas tiv_defs = NumberFilter_to_internal_value_def CharFilter_to_internal_value_def
  InFilter_to_internal_value_def DateTimeFilter_to_internal_value_def
  DateFilter_to_internal_value_def NumberRangeFilter_to_internal_value_def

lemmas store_defs = store0_def user_model_def name_contains_def tags_in_def price_plain_def
  nick_exact_def UserFilterSet_def ProductFilterSet_def NickFilterSet_def

lemmas dep_defs = to_dependencies_def check_fields_appearance_def filter_fields_of_def
  model_field_names_def create_dynamic_class_def instance_annotations_def add_fields_def
  dict_update_def List.map_filter_simps

lemmas fs_eval_defs = FilterSet_filter_queryset_def get_queryset_def fq_defs tiv_defs kb_defs
  qs_filter_def check_lookup_exr_def Let_def

lemmas example_defs = db_ok_def db_down_def users_all_def age_gte_def age_in_def age_list_def
  age_abc_def born_abc_def tags_gt_def price_gte_def

lemmas int_of_str_defs = int_of_str_def int_of_text_def py_strip_def py_isspace_def
  py_isdigit_def

subsection \<open>A filter without a value\<close>

lemma fq_none:
  "cls f \<in> set concrete_classes \<Longrightarrow> fvalue f = PNone \<Longrightarrow>
     filter_queryset db f qs v = (f, [], Inr qs)"
  by (auto simp: concrete_classes_def fq_defs)

text \<open>
  C1. For each of the six field filters (\<open>NumberFilter\<close>, \<open>CharFilter\<close>, \<open>InFilter\<close>,
  \<open>DateTimeFilter\<close>, \<open>DateFilter\<close>, \<open>NumberRangeFilter\<close>) and every queryset: when the
  filter's \<open>value\<close> attribute is \<open>None\<close>, \<open>filter_queryset\<close> returns the queryset it was
  given. It raises nothing, adds no predicate, changes nothing of the filter and causes
  no event, whatever the database would do.
\<close>

theorem filter_queryset_none_is_noop:
  "cls f \<in> set concrete_classes \<Longrightarrow> fvalue f = PNone \<Longrightarrow>
     filter_queryset db f qs v = (f, [], Inr qs)"
  by (rule fq_none)

text \<open>
  The filter \<open>NumberFilter('age', 'gte')\<close>, whose value is \<open>None\<close>, called with 18 over a
  database that is down.
\<close>

theorem filter_queryset_none_is_noop_witness:
  "cls age_gte \<in> set concrete_classes \<and> fvalue age_gte = PNone \<and>
   filter_queryset db_down age_gte users_all (PInt 18) = (age_gte, [], Inr users_all)"
  using filter_queryset_none_is_noop
          [where f = age_gte and db = db_down and qs = users_all and v = "PInt 18"]
  by (simp add: age_gte_def concrete_classes_def)

subsection \<open>The keyword predicate\<close>

lemma build_kwargs_snd:
  "snd (build_kwargs f v) =
     [(case lookup_expr f of None \<Rightarrow> field_name f | Some e \<Rightarrow> field_name f @ ''__'' @ e, v)]"
  by (cases "cls f") (simp_all add: kb_defs split: option.splits)

lemma fq_success_shape:
  assumes "filter_queryset db f qs v = (f', evs, Inr qs')" and "fvalue f \<noteq> PNone"
  shows "qs' = qs_filter qs (snd (build_kwargs f' v))"
  using assms
  by (cases "cls f")
     (auto simp: fq_defs kb_defs Let_def split: sum.splits option.splits if_splits prod.splits)

text \<open>
  C4. For every field filter and value, the keyword predicate built for the ORM filter
  call has a single entry: its key is \<open>field_name + "__" + lookup_expr\<close> when
  \<open>lookup_expr\<close> is not \<open>None\<close> and \<open>field_name\<close> when it is, and its value is the given
  value. This holds for the builder of every class, and a \<open>filter_queryset\<close> that
  returns on a filter with a value has chained exactly that predicate, built from the
  filter as the call leaves it.
\<close>

theorem kwargs_builder_single_entry:
  "snd (build_kwargs f v) =
     [(case lookup_expr f of None \<Rightarrow> field_name f | Some e \<Rightarrow> field_name f @ ''__'' @ e, v)]
   \<and> (fvalue f \<noteq> PNone \<and> filter_queryset db f qs v = (f', evs, Inr qs') \<longrightarrow>
        qs' = qs_filter qs
          [(case lookup_expr f' of None \<Rightarrow> field_name f'
            | Some e \<Rightarrow> field_name f' @ ''__'' @ e, v)])"
  using build_kwargs_snd fq_success_shape by metis

text \<open>\<open>NumberRangeFilter('price', 'gte')\<close> holding 10, called with 10.\<close>

theorem kwargs_builder_single_entry_witness:
  "snd (build_kwargs price_gte (PInt 10)) = [(''price__gte'', PInt 10)] \<and>
   fvalue price_gte \<noteq> PNone \<and>
   filter_queryset db_ok price_gte users_all (PInt 10) =
     (price_gte,
      [PrintFieldName ''price'', PrintKwargs [(''price__gte'', PInt 10)],
       Await \<lparr>qs_model = ''User'', qs_filters = [[(''price__gte'', PInt 10)]]\<rparr>,
       PrintResult \<lparr>qs_model = ''User'', qs_filters = [[(''price__gte'', PInt 10)]]\<rparr>],
      Inr \<lparr>qs_model = ''User'', qs_filters = [[(''price__gte'', PInt 10)]]\<rparr>) \<and>
   \<lparr>qs_model = ''User'', qs_filters = [[(''price__gte'', PInt 10)]]\<rparr> =
     qs_filter users_all [(''price__gte'', PInt 10)]"
  using kwargs_builder_single_entry
          [where f = price_gte and v = "PInt 10" and db = db_ok and qs = users_all
             and f' = price_gte
             and evs = "[PrintFieldName ''price'', PrintKwargs [(''price__gte'', PInt 10)],
               Await \<lparr>qs_model = ''User'', qs_filters = [[(''price__gte'', PInt 10)]]\<rparr>,
               PrintResult \<lparr>qs_model = ''User'', qs_filters = [[(''price__gte'', PInt 10)]]\<rparr>]"
             and qs' = "\<lparr>qs_model = ''User'', qs_filters = [[(''price__gte'', PInt 10)]]\<rparr>"]
  by (simp add: example_defs fq_defs tiv_defs kb_defs qs_filter_def check_lookup_exr_def Let_def)

subsection \<open>What a call with a value returns\<close>

lemma int_of_text_error: "int_of_text sp s = Inl e \<Longrightarrow> \<exists>m. e = ValueError m"
  by (auto simp: int_of_text_def Let_def split: if_splits)

lemma py_int_no_Exception: "py_int v \<noteq> Inl (Exception msg)"
proof (cases v)
  case (PFloat x)
  then show ?thesis by (cases x) simp_all
next
  case (PStr s)
  then show ?thesis using int_of_text_error [of py_isspace s] by (auto simp: int_of_str_def)
next
  case (PBytes s)
  then show ?thesis using int_of_text_error [of bytes_isspace s] by (auto simp: int_of_bytes_def)
qed simp_all

lemma tiv_no_Exception: "to_internal_value f \<noteq> Inl (Exception msg)"
  using py_int_no_Exception [of "fvalue f" msg]
  by (cases "cls f")
     (auto simp: to_internal_value_def tiv_defs split: sum.splits exn.splits)

lemma lookup_check: "check_lookup_exr f = Inr () \<longleftrightarrow> lookup_allowed f"
  by (auto simp: check_lookup_exr_def lookup_allowed_def split: option.splits)

lemma check_lookup_exr_cases:
  "check_lookup_exr f = Inr () \<and> lookup_allowed f \<or>
   (\<exists>e. check_lookup_exr f = Inl e) \<and> \<not> lookup_allowed f"
  by (auto simp: check_lookup_exr_def lookup_allowed_def split: option.splits)

text \<open>
  The five classes that check the lookup: the check, then the validation of the value,
  then the predicate, and for \<open>NumberRangeFilter\<close> the query.
\<close>

lemma fq_checking:
  assumes "cls f \<in> set checking_classes" "fvalue f \<noteq> PNone"
  shows "fst (filter_queryset db f qs v) = f"
    and "snd (snd (filter_queryset db f qs v)) =
       (case check_lookup_exr f of
          Inl e \<Rightarrow> Inl e
        | Inr u \<Rightarrow>
           (case to_internal_value f of
              Inl e \<Rightarrow> Inl e
            | Inr u' \<Rightarrow>
               (case (if cls f = NumberRangeFilter
                      then db (qs_filter qs (snd (build_kwargs f v))) else None) of
                  Some (c, m) \<Rightarrow> Inl (QueryError c m)
                | None \<Rightarrow> Inr (qs_filter qs (snd (build_kwargs f v))))))"
  using assms
  by (auto simp: checking_classes_def fq_defs to_internal_value_def build_kwargs_def
        NumberRangeFilter_kwargs_builder_def Let_def
      split: sum.splits option.splits)

lemma fq_in:
  assumes "cls f = InFilter" "fvalue f \<noteq> PNone"
  shows "fst (filter_queryset db f qs v) = f\<lparr>lookup_expr := Some ''in''\<rparr>"
    and "fst (snd (filter_queryset db f qs v)) = []"
    and "snd (snd (filter_queryset db f qs v)) =
       (if isinstance_list (fvalue f)
        then Inr (qs_filter qs [(field_name f @ ''__in'', v)])
        else Inl (TypeError ''Invalid type''))"
  using assms
  by (auto simp: fq_defs InFilter_to_internal_value_def kwargs_builder_def Let_def)

lemma checked_reject:
  assumes "cls f \<in> set checking_classes" "fvalue f \<noteq> PNone" "\<not> lookup_allowed f"
  shows "\<exists>e. lookup_expr f = Some e \<and>
           filter_queryset db f qs v =
             (f, [], Inl (Exception (''Invalid lookup expression: '' @ e)))"
  using assms
  by (cases "lookup_expr f")
     (auto simp: checking_classes_def fq_defs check_lookup_exr_def lookup_allowed_def)

lemma checked_accept:
  assumes "cls f \<in> set checking_classes" "fvalue f \<noteq> PNone" "lookup_allowed f"
  shows "snd (snd (filter_queryset db f qs v)) \<noteq> Inl (Exception msg)"
  using assms tiv_no_Exception [of f msg] check_lookup_exr_cases [of f]
  by (auto simp: fq_checking split: sum.splits option.splits)

lemma in_filter_no_Exception:
  assumes "cls f = InFilter"
  shows "snd (snd (filter_queryset db f qs v)) \<noteq> Inl (Exception msg)"
  using assms by (auto simp: fq_defs tiv_defs Let_def)

subsection \<open>Validation of the lookup expression\<close>

text \<open>
  C2, as amended. For a filter with a value that is not \<open>None\<close>: the filter_queryset
  of \<open>NumberFilter\<close>, \<open>CharFilter\<close>, \<open>DateTimeFilter\<close>, \<open>DateFilter\<close> and
  \<open>NumberRangeFilter\<close> raises \<open>Exception('Invalid lookup expression: ...')\<close> if and only if
  \<open>lookup_expr\<close> is not in the class's \<open>available_expr\<close> list, and then does nothing
  else. \<open>InFilter\<close> makes no such check: it never raises that exception and sets its
  \<open>lookup_expr\<close> to \<open>'in'\<close>. An allowed lookup does not exclude the other exceptions,
  those of the type validation.
\<close>

theorem lookup_validation:
  "fvalue f \<noteq> PNone \<Longrightarrow>
     (cls f \<in> set checking_classes \<longrightarrow>
        ((\<exists>msg. snd (snd (filter_queryset db f qs v)) = Inl (Exception msg)) =
           (\<not> lookup_allowed f)) \<and>
        (\<not> lookup_allowed f \<longrightarrow>
           (\<exists>e. lookup_expr f = Some e \<and>
              filter_queryset db f qs v =
                (f, [], Inl (Exception (''Invalid lookup expression: '' @ e))))))
     \<and> (cls f = InFilter \<longrightarrow>
          (\<forall>msg. snd (snd (filter_queryset db f qs v)) \<noteq> Inl (Exception msg)) \<and>
          lookup_expr (fst (filter_queryset db f qs v)) = Some ''in'')"
proof (intro conjI impI)
  assume nn: "fvalue f \<noteq> PNone" and c: "cls f \<in> set checking_classes"
  show "(\<exists>msg. snd (snd (filter_queryset db f qs v)) = Inl (Exception msg)) =
          (\<not> lookup_allowed f)"
  proof
    assume "\<exists>msg. snd (snd (filter_queryset db f qs v)) = Inl (Exception msg)"
    then show "\<not> lookup_allowed f" using checked_accept [OF c nn] by blast
  next
    assume "\<not> lookup_allowed f"
    from checked_reject [OF c nn this, of db qs v]
    show "\<exists>msg. snd (snd (filter_queryset db f qs v)) = Inl (Exception msg)" by auto
  qed
next
  assume nn: "fvalue f \<noteq> PNone" and c: "cls f \<in> set checking_classes"
    and r: "\<not> lookup_allowed f"
  show "\<exists>e. lookup_expr f = Some e \<and>
              filter_queryset db f qs v =
                (f, [], Inl (Exception (''Invalid lookup expression: '' @ e)))"
    by (rule checked_reject [OF c nn r])
next
  assume "cls f = InFilter"
  then show "\<forall>msg. snd (snd (filter_queryset db f qs v)) \<noteq> Inl (Exception msg)"
    using in_filter_no_Exception by blast
next
  assume "fvalue f \<noteq> PNone" "cls f = InFilter"
  then show "lookup_expr (fst (filter_queryset db f qs v)) = Some ''in''"
    by (simp add: fq_in)
qed

text \<open>
  \<open>NumberFilter('age', 'in')\<close> holding 3 is refused for its lookup; \<open>InFilter('tag_id',
  'gt')\<close> holding \<open>[1]\<close> ends with the lookup \<open>'in'\<close>.
\<close>

theorem lookup_validation_witness:
  "fvalue age_in \<noteq> PNone \<and> cls age_in \<in> set checking_classes \<and> \<not> lookup_allowed age_in \<and>
   filter_queryset db_ok age_in users_all (PInt 3) =
     (age_in, [], Inl (Exception ''Invalid lookup expression: in'')) \<and>
   fvalue tags_gt \<noteq> PNone \<and> cls tags_gt = InFilter \<and>
   lookup_expr (fst (filter_queryset db_ok tags_gt users_all (PList [PInt 1]))) = Some ''in''"
  using lookup_validation [where f = age_in and db = db_ok and qs = users_all and v = "PInt 3"]
        lookup_validation
          [where f = tags_gt and db = db_ok and qs = users_all and v = "PList [PInt 1]"]
  by (simp add: example_defs checking_classes_def lookup_allowed_def)

text \<open>
  C2 as stated fails twice. \<open>InFilter('tag_id', 'gt')\<close> holding \<open>[1]\<close> has a lookup
  outside its list \<open>[None]\<close> and raises nothing: it filters on \<open>tag_id__in\<close>. And
  \<open>NumberFilter('age')\<close> holding a list has an allowed lookup and raises all the same.
\<close>

theorem lookup_validation_counterexample:
  "fvalue tags_gt \<noteq> PNone \<and> \<not> lookup_allowed tags_gt \<and>
   filter_queryset db_ok tags_gt users_all (PList [PInt 1]) =
     (tags_gt\<lparr>lookup_expr := Some ''in''\<rparr>, [],
      Inr \<lparr>qs_model = ''User'', qs_filters = [[(''tag_id__in'', PList [PInt 1])]]\<rparr>)
   \<and> fvalue age_list \<noteq> PNone \<and> lookup_allowed age_list \<and>
   filter_queryset db_ok age_list users_all (PList []) =
     (age_list, [], Inl (TypeError ''Invalid type''))"
  by (simp add: example_defs lookup_allowed_def fq_defs tiv_defs kb_defs qs_filter_def
        check_lookup_exr_def)

subsection \<open>Validation of the value's type\<close>

text \<open>
  What the two number filters make of a value that \<open>int\<close> refuses, once the lookup has
  passed: a \<open>TypeError\<close> of \<open>int\<close> becomes \<open>TypeError('Invalid type')\<close>, and any other
  exception of \<open>int\<close> ends the call as it is, before a predicate is built, printed or
  awaited.
\<close>

lemma number_filters_pass_on_int_errors:
  assumes "cls f = NumberFilter \<or> cls f = NumberRangeFilter" and "fvalue f \<noteq> PNone"
      and "lookup_allowed f" and "py_int (fvalue f) = Inl e"
  shows "filter_queryset db f qs v =
           (f, [], Inl (case e of TypeError m \<Rightarrow> TypeError ''Invalid type'' | _ \<Rightarrow> e))"
  using assms
  by (auto simp: fq_defs tiv_defs lookup_check [symmetric] split: exn.splits)

text \<open>
  C8, at \<open>NumberFilter('age')\<close> holding \<open>'abc'\<close>, called with \<open>'abc'\<close>. The value is not
  \<open>None\<close>, the lookup is allowed and the value is not coercible to an integer: \<open>int\<close>
  raises \<open>ValueError\<close>, which \<open>to_internal_value\<close> does not catch, so the call raises
  that \<open>ValueError\<close> and not \<open>TypeError('Invalid type')\<close>. \<open>DateFilter('born')\<close> holding
  the same string raises \<open>TypeError('Invalid type')\<close>.
\<close>

theorem number_filter_bad_string_raises_value_error:
  "cls age_abc = NumberFilter \<and> fvalue age_abc = PStr ''abc'' \<and> lookup_allowed age_abc \<and>
   py_int (PStr ''abc'') = Inl (ValueError ''invalid literal for int() with base 10'') \<and>
   filter_queryset db_ok age_abc users_all (PStr ''abc'') =
     (age_abc, [], Inl (ValueError ''invalid literal for int() with base 10'')) \<and>
   filter_queryset db_ok born_abc users_all (PStr ''abc'') =
     (born_abc, [], Inl (TypeError ''Invalid type''))"
  by (simp add: example_defs lookup_allowed_def fq_defs tiv_defs kb_defs qs_filter_def
        check_lookup_exr_def int_of_str_defs)

subsection \<open>The query that \<open>NumberRangeFilter\<close> runs\<close>

text \<open>
  C10. When its value is not \<open>None\<close> and the call returns,
  \<open>NumberRangeFilter.filter_queryset\<close> has awaited the filtered queryset it returns:
  applying it runs the database query. With the value \<open>None\<close> it awaits nothing, and no
  other filter of the hierarchy ever awaits a queryset, whatever the outcome of the
  call.
\<close>

theorem number_range_filter_awaits:
  "(cls f = NumberRangeFilter \<and> fvalue f \<noteq> PNone \<and>
      filter_queryset db f qs v = (f', evs, Inr qs') \<longrightarrow>
      qs' = qs_filter qs (snd (build_kwargs f v)) \<and> Await qs' \<in> set evs)
   \<and> (cls f = NumberRangeFilter \<and> fvalue f = PNone \<longrightarrow>
        filter_queryset db f qs v = (f, [], Inr qs))
   \<and> (cls f \<noteq> NumberRangeFilter \<longrightarrow> Await q \<notin> set (fst (snd (filter_queryset db f qs v))))"
  by (cases "cls f")
     (auto simp: fq_defs kb_defs Let_def split: sum.splits option.splits prod.splits)

text \<open>
  \<open>NumberRangeFilter('price', 'gte')\<close> holding 10 prints, awaits and prints again;
  \<open>NumberFilter('age', 'gte')\<close> awaits nothing.
\<close>

theorem number_range_filter_awaits_witness:
  "cls price_gte = NumberRangeFilter \<and> fvalue price_gte \<noteq> PNone \<and>
   filter_queryset db_ok price_gte users_all (PInt 10) =
     (price_gte,
      [PrintFieldName ''price'', PrintKwargs [(''price__gte'', PInt 10)],
       Await \<lparr>qs_model = ''User'', qs_filters = [[(''price__gte'', PInt 10)]]\<rparr>,
       PrintResult \<lparr>qs_model = ''User'', qs_filters = [[(''price__gte'', PInt 10)]]\<rparr>],
      Inr \<lparr>qs_model = ''User'', qs_filters = [[(''price__gte'', PInt 10)]]\<rparr>)
   \<and> Await \<lparr>qs_model = ''User'', qs_filters = [[(''price__gte'', PInt 10)]]\<rparr> \<in>
       set (fst (snd (filter_queryset db_ok price_gte users_all (PInt 10))))
   \<and> cls age_gte \<noteq> NumberRangeFilter \<and>
     Await users_all \<notin> set (fst (snd (filter_queryset db_ok age_gte users_all (PInt 18))))"
  using number_range_filter_awaits
          [where f = price_gte and db = db_ok and qs = users_all and v = "PInt 10"
             and f' = price_gte
             and evs = "[PrintFieldName ''price'', PrintKwargs [(''price__gte'', PInt 10)],
               Await \<lparr>qs_model = ''User'', qs_filters = [[(''price__gte'', PInt 10)]]\<rparr>,
               PrintResult \<lparr>qs_model = ''User'', qs_filters = [[(''price__gte'', PInt 10)]]\<rparr>]"
             and qs' = "\<lparr>qs_model = ''User'', qs_filters = [[(''price__gte'', PInt 10)]]\<rparr>"
             and q = users_all]
        number_range_filter_awaits
          [where f = age_gte and db = db_ok and qs = users_all and v = "PInt 18"
             and f' = age_gte and evs = "[]" and qs' = users_all and q = users_all]
  by (simp add: example_defs fq_defs tiv_defs kb_defs qs_filter_def check_lookup_exr_def Let_def)

subsection \<open>The range filters for dates\<close>

text \<open>
  C6, as amended. \<open>DateRangeFilter\<close> and \<open>DateTimeRangeFilter\<close> are declared as
  subclasses of \<open>BaseFieldFilter\<close> with a docstring and nothing else: their
  \<open>to_internal_value\<close> and \<open>filter_queryset\<close> are still the abstract methods of the
  base class, so they cannot be instantiated (the call raises \<open>TypeError\<close>, whatever the
  arguments) and validate or filter nothing. The six other filter classes are
  instantiated with the attributes given.
\<close>

theorem date_range_filters_are_abstract:
  "(\<forall>c \<in> {DateRangeFilter, DateTimeRangeFilter}.
      resolve_method c ''to_internal_value'' = Some True \<and>
      resolve_method c ''filter_queryset'' = Some True \<and>
      instantiate c fname lookup v m tf = Inl (TypeError ''Can't instantiate abstract class''))
   \<and> (\<forall>c \<in> set concrete_classes.
        instantiate c fname lookup v m None =
          Inr \<lparr>cls = c, field_name = fname, lookup_expr = lookup, fvalue = v, fmethod = m,
               in_annotations =
                 (if c = InFilter
                  then [(''value'', TAnnotated (TUnion [TList TInt, TNoneType]) ''Query(...)'')]
                  else [])\<rparr>)"
  by (simp add: instantiate_def abstractmethods_def resolve_method_def concrete_classes_def)

text \<open>
  \<open>DateTimeRangeFilter('created_at')\<close> raises; \<open>DateFilter('created_at', 'range')\<close> is
  an object.
\<close>

theorem date_range_filters_are_abstract_witness:
  "DateTimeRangeFilter \<in> {DateRangeFilter, DateTimeRangeFilter} \<and>
   instantiate DateTimeRangeFilter ''created_at'' None PNone None None =
     Inl (TypeError ''Can't instantiate abstract class'') \<and>
   DateFilter \<in> set concrete_classes \<and>
   instantiate DateFilter ''created_at'' (Some ''range'') PNone None None =
     Inr \<lparr>cls = DateFilter, field_name = ''created_at'', lookup_expr = Some ''range'',
          fvalue = PNone, fmethod = None, in_annotations = []\<rparr>"
  using date_range_filters_are_abstract [of "''created_at''" None PNone None None]
        date_range_filters_are_abstract [of "''created_at''" "Some ''range''" PNone None None]
  by (simp add: concrete_classes_def)

text \<open>C6 as stated fails at \<open>DateRangeFilter('created_at', 'range')\<close>: no object is made.\<close>

theorem date_range_filters_counterexample:
  "abstractmethods DateRangeFilter = [''filter_queryset'', ''to_internal_value''] \<and>
   instantiate DateRangeFilter ''created_at'' (Some ''range'') PNone None None =
     Inl (TypeError ''Can't instantiate abstract class'')"
  by (simp add: instantiate_def abstractmethods_def resolve_method_def)

section \<open>Properties of the filter set\<close>

subsection \<open>The filter objects through a call\<close>

lemma fq_shape:
  "shape (fst (filter_queryset db f qs v)) = shape f"
  by (cases "cls f")
     (auto simp: fq_defs shape_def Let_def split: sum.splits prod.splits option.splits)

lemma fq_fvalue:
  "fvalue (fst (filter_queryset db f qs v)) = fvalue f"
  by (cases "cls f")
     (auto simp: fq_defs Let_def split: sum.splits prod.splits option.splits)

lemma fq_Inr:
  assumes "filter_queryset db f qs v = (f', evs, Inr qs')"
  shows "qs' = (if fvalue f = PNone then qs else qs_filter qs (predicate_of f v))"
  using assms
  by (cases "cls f")
     (auto simp: fq_defs kb_defs shape_def predicate_of_def Let_def
           split: sum.splits prod.splits option.splits if_splits)

subsection \<open>The loop of \<open>FilterSet.filter_queryset\<close>\<close>

lemma applied_predicates_cong:
  "(\<And>p. shape (h p) = shape (h0 p)) \<Longrightarrow>
     applied_predicates attrs qp h = applied_predicates attrs qp h0"
proof -
  assume sh: "\<And>p. shape (h p) = shape (h0 p)"
  have "\<And>p v. predicate_of (h p) v = predicate_of (h0 p) v"
    by (simp add: predicate_of_def sh)
  then show ?thesis
    by (induction attrs)
       (auto simp: applied_predicates_def split: attribute.splits option.splits)
qed

lemma applied_predicates_Nil: "applied_predicates [] qp h = []"
  by (simp add: applied_predicates_def)

lemma applied_predicates_Cons:
  "applied_predicates ((key, a) # rest) qp h =
     (case a of
        OtherAttr \<Rightarrow> []
      | FieldFilterAttr p \<Rightarrow>
          (case map_of qp key of
             None \<Rightarrow> []
           | Some v \<Rightarrow> if v = PNone then [] else [predicate_of (h p) v]))
     @ applied_predicates rest qp h"
  by (simp add: applied_predicates_def)

lemma filter_loop_Inr:
  "filter_loop db attrs qp h qs = (h', evs, Inr qs') \<Longrightarrow>
     qs' = qs\<lparr>qs_filters := qs_filters qs @ applied_predicates attrs qp h\<rparr> \<and>
     (\<forall>p. shape (h' p) = shape (h p))"
proof (induction db attrs qp h qs arbitrary: h' evs qs' rule: filter_loop.induct)
  case (1 db qp h qs)
  then show ?case by (simp add: applied_predicates_Nil)
next
  case (2 db key rest qp h qs)
  then show ?case by (simp add: applied_predicates_Cons)
next
  case (3 db key p rest qp h qs)
  show ?case
  proof (cases "map_of qp key")
    case None
    with 3 show ?thesis by (simp add: applied_predicates_Cons)
  next
    case (Some v)
    obtain f1 evs1 r1 where fq: "filter_queryset db ((h p)\<lparr>fvalue := v\<rparr>) qs v = (f1, evs1, r1)"
      by (cases "filter_queryset db ((h p)\<lparr>fvalue := v\<rparr>) qs v") auto
    from "3.prems" Some fq obtain qs1 where r1: "r1 = Inr qs1"
      by (cases r1) auto
    obtain h2 evs2 r2 where rest: "filter_loop db rest qp (h(p := f1)) qs1 = (h2, evs2, r2)"
      by (cases "filter_loop db rest qp (h(p := f1)) qs1") auto
    from "3.prems" Some fq r1 rest have eqs: "h' = h2" "r2 = Inr qs'" by auto
    have "shape f1 = shape ((h p)\<lparr>fvalue := v\<rparr>)"
      using fq_shape [of db "(h p)\<lparr>fvalue := v\<rparr>" qs v] fq by simp
    also have "\<dots> = shape (h p)" by (simp add: shape_def)
    finally have sh1: "shape f1 = shape (h p)" .
    then have sh: "\<And>q. shape ((h(p := f1)) q) = shape (h q)" by simp
    from rest eqs have rest': "filter_loop db rest qp (h(p := f1)) qs1 = (h2, evs2, Inr qs')"
      by simp
    have ih: "qs' = qs1\<lparr>qs_filters := qs_filters qs1 @ applied_predicates rest qp (h(p := f1))\<rparr> \<and>
       (\<forall>q. shape (h2 q) = shape ((h(p := f1)) q))"
      by (rule "3.IH"(2) [OF Some fq [symmetric] refl r1 rest'])
    have q1: "qs1 = (if v = PNone then qs else qs_filter qs (predicate_of (h p) v))"
      using fq_Inr [OF fq [unfolded r1]] by (simp add: predicate_of_def shape_def)
    have ap: "applied_predicates rest qp (h(p := f1)) = applied_predicates rest qp h"
      by (rule applied_predicates_cong) (simp add: sh1)
    show ?thesis
      using ih q1 sh eqs Some
      by (simp add: ap applied_predicates_Cons qs_filter_def)
  qed
qed

lemma filter_loop_fvalue:
  "snd (snd (filter_loop db attrs qp h qs)) = Inr qs' \<Longrightarrow>
     fvalue (fst (filter_loop db attrs qp h qs) p) =
       (if assigned attrs qp p = [] then fvalue (h p) else last (assigned attrs qp p))"
proof (induction db attrs qp h qs rule: filter_loop.induct)
  case (1 db qp h qs)
  then show ?case by (simp add: assigned_def)
next
  case (2 db key rest qp h qs)
  then show ?case by (simp add: assigned_def)
next
  case (3 db key p0 rest qp h qs)
  show ?case
  proof (cases "map_of qp key")
    case None
    with 3 show ?thesis by (simp add: assigned_def)
  next
    case (Some v)
    obtain f1 evs1 r1 where fq: "filter_queryset db ((h p0)\<lparr>fvalue := v\<rparr>) qs v = (f1, evs1, r1)"
      by (cases "filter_queryset db ((h p0)\<lparr>fvalue := v\<rparr>) qs v") auto
    from "3.prems" Some fq obtain qs1 where r1: "r1 = Inr qs1"
      by (cases r1) auto
    have fv: "fvalue f1 = v"
      using fq_fvalue [of db "(h p0)\<lparr>fvalue := v\<rparr>" qs v] fq by simp
    have res_fst: "fst (filter_loop db ((key, FieldFilterAttr p0) # rest) qp h qs) =
        fst (filter_loop db rest qp (h(p0 := f1)) qs1)"
      and res_snd: "snd (snd (filter_loop db ((key, FieldFilterAttr p0) # rest) qp h qs)) =
        snd (snd (filter_loop db rest qp (h(p0 := f1)) qs1))"
      using Some fq r1 by (simp_all split: prod.splits)
    from "3.prems" res_snd have "snd (snd (filter_loop db rest qp (h(p0 := f1)) qs1)) = Inr qs'"
      by simp
    from "3.IH"(2) [OF Some fq [symmetric] refl r1 this]
    have ih: "fvalue (fst (filter_loop db rest qp (h(p0 := f1)) qs1) p) =
       (if assigned rest qp p = [] then fvalue ((h(p0 := f1)) p) else last (assigned rest qp p))" .
    have as: "assigned ((key, FieldFilterAttr p0) # rest) qp p =
       (if p0 = p then [v] else []) @ assigned rest qp p"
      using Some by (simp add: assigned_def)
    show ?thesis
      unfolding res_fst as using ih fv by simp
  qed
qed

subsection \<open>Which filters a filter set applies\<close>

lemma FilterSet_Inr:
  assumes "snd (snd (FilterSet_filter_queryset db c qp h)) = Inr qs"
  shows "\<exists>m. fs_model c = Some m \<and>
           qs = \<lparr>qs_model = model_name m, qs_filters = applied_predicates (fs_dict c) qp h\<rparr>"
proof (cases "fs_model c")
  case None
  with assms show ?thesis by (simp add: FilterSet_filter_queryset_def get_queryset_def)
next
  case (Some m)
  let ?q0 = "\<lparr>qs_model = model_name m, qs_filters = []\<rparr>"
  obtain h' evs r where l: "filter_loop db (fs_dict c) qp h ?q0 = (h', evs, r)"
    by (cases "filter_loop db (fs_dict c) qp h ?q0") auto
  with assms Some have "r = Inr qs"
    by (simp add: FilterSet_filter_queryset_def get_queryset_def)
  with l filter_loop_Inr [of db "fs_dict c" qp h ?q0 h' evs qs] Some show ?thesis by simp
qed

text \<open>
  C5, as amended. When \<open>FilterSet.filter_queryset\<close> returns, it has applied
  exactly those declared field filters whose attribute name is a key of
  \<open>query_params\<close> with a value other than \<open>None\<close>: the queryset it returns is
  \<open>model.all()\<close> with one ORM filter call chained for each of them, in the order the
  filter attributes are declared on the class, each call with the filter's single
  predicate. Filters whose attribute name is absent from \<open>query_params\<close>, or present
  with the value \<open>None\<close>, leave the queryset untouched.
\<close>

theorem filterset_applies_valued_filters:
  "snd (snd (FilterSet_filter_queryset db c qp h)) = Inr qs \<Longrightarrow>
     (\<exists>m. fs_model c = Some m \<and>
        qs = \<lparr>qs_model = model_name m, qs_filters = applied_predicates (fs_dict c) qp h\<rparr>)"
  by (rule FilterSet_Inr)

text \<open>
  \<open>UserFilterSet\<close> declares \<open>age\<close>, \<open>name\<close> and \<open>tags\<close>, in that order. With \<open>tags\<close>
  and \<open>age\<close> in the query parameters, the call returns; the age filter is chained
  first, then the tags filter; \<open>name\<close> adds nothing.
\<close>

theorem filterset_applies_valued_filters_witness:
  "snd (snd (FilterSet_filter_queryset db_ok UserFilterSet params0 store0)) =
     Inr \<lparr>qs_model = ''User'',
          qs_filters = [[(''age__gte'', PInt 18)], [(''tag_id__in'', PList [PInt 1, PInt 2])]]\<rparr> \<and>
   fs_model UserFilterSet = Some user_model \<and> model_name user_model = ''User'' \<and>
   applied_predicates (fs_dict UserFilterSet) params0 store0 =
     [[(''age__gte'', PInt 18)], [(''tag_id__in'', PList [PInt 1, PInt 2])]]"
proof -
  have r: "snd (snd (FilterSet_filter_queryset db_ok UserFilterSet params0 store0)) =
     Inr \<lparr>qs_model = ''User'',
          qs_filters = [[(''age__gte'', PInt 18)], [(''tag_id__in'', PList [PInt 1, PInt 2])]]\<rparr>"
    by (simp add: store_defs age_gte_def params0_def db_ok_def fs_eval_defs)
  have m: "fs_model UserFilterSet = Some user_model" "model_name user_model = ''User''"
    by (simp_all add: store_defs)
  from filterset_applies_valued_filters [OF r] m
  have "applied_predicates (fs_dict UserFilterSet) params0 store0 =
     [[(''age__gte'', PInt 18)], [(''tag_id__in'', PList [PInt 1, PInt 2])]]"
    by simp
  with r m show ?thesis by simp
qed

text \<open>
  C5 as stated fails at the query parameters \<open>{'age': None}\<close>: the attribute name
  \<open>age\<close> is a key, the filter is called, and no ORM filter call is chained.
\<close>

theorem filterset_applies_valued_filters_counterexample:
  "(''age'', FieldFilterAttr 0) \<in> set (fs_dict UserFilterSet) \<and>
   map_of [(''age'', PNone)] ''age'' = Some PNone \<and>
   snd (FilterSet_filter_queryset db_ok UserFilterSet [(''age'', PNone)] store0) =
     ([PrintQueryParams [(''age'', PNone)]], Inr \<lparr>qs_model = ''User'', qs_filters = []\<rparr>)"
  by (simp add: store_defs age_gte_def db_ok_def fs_eval_defs)

subsection \<open>What a filter set leaves in the filter objects\<close>

lemma assigned_Cons:
  "assigned ((key, a) # rest) qp p =
     (case a of
        OtherAttr \<Rightarrow> []
      | FieldFilterAttr p' \<Rightarrow>
          if p' = p then (case map_of qp key of None \<Rightarrow> [] | Some v \<Rightarrow> [v]) else [])
     @ assigned rest qp p"
  by (simp add: assigned_def)

lemma assigned_mem:
  assumes "(key, FieldFilterAttr p) \<in> set attrs" and "map_of qp key = Some v"
  shows "v \<in> set (assigned attrs qp p)"
proof -
  have "v \<in> set (case FieldFilterAttr p of
                   OtherAttr \<Rightarrow> []
                 | FieldFilterAttr p' \<Rightarrow>
                     if p' = p then (case map_of qp key of None \<Rightarrow> [] | Some v \<Rightarrow> [v])
                     else [])"
    by (simp add: assms(2))
  with assms(1) show ?thesis
    unfolding assigned_def set_concat set_map by blast
qed

lemma assigned_filter:
  "assigned attrs qp p =
     concat (map (\<lambda>(k, a). case map_of qp k of None \<Rightarrow> [] | Some v \<Rightarrow> [v])
               (filter (\<lambda>(k, a). a = FieldFilterAttr p) attrs))"
proof (induction attrs)
  case Nil
  then show ?case by (simp add: assigned_def)
next
  case (Cons x xs)
  obtain k a where x: "x = (k, a)" by (cases x)
  show ?case
  proof (cases a)
    case OtherAttr
    with Cons x show ?thesis by (simp add: assigned_Cons)
  next
    case (FieldFilterAttr p')
    with Cons x show ?thesis by (simp add: assigned_Cons)
  qed
qed

lemma FilterSet_fvalue:
  assumes "snd (snd (FilterSet_filter_queryset db c qp h)) = Inr qs"
  shows "fvalue (fst (FilterSet_filter_queryset db c qp h) p) =
       (if assigned (fs_dict c) qp p = [] then fvalue (h p)
        else last (assigned (fs_dict c) qp p))"
proof (cases "fs_model c")
  case None
  with assms show ?thesis by (simp add: FilterSet_filter_queryset_def get_queryset_def)
next
  case (Some m)
  then have r: "FilterSet_filter_queryset db c qp h =
      filter_loop db (fs_dict c) qp h \<lparr>qs_model = model_name m, qs_filters = []\<rparr>"
    by (simp add: FilterSet_filter_queryset_def get_queryset_def)
  from assms show ?thesis unfolding r by (rule filter_loop_fvalue)
qed

text \<open>
  C9. \<open>FilterSet.filter_queryset\<close> writes to the filter objects of the class, which
  are shared by every instance. When the call returns, each query parameter whose key
  names a declared filter has been assigned to that filter object's \<open>value\<close>; the
  object keeps the last value assigned to it (the parameter's value, when one attribute
  only refers to the object), and an object no parameter names keeps its value. The
  store the call returns is the one every later call on the class starts from.
\<close>

theorem filterset_assigns_to_shared_filters:
  "snd (snd (FilterSet_filter_queryset db c qp h)) = Inr qs \<Longrightarrow>
     fvalue (fst (FilterSet_filter_queryset db c qp h) p) =
       (if assigned (fs_dict c) qp p = [] then fvalue (h p)
        else last (assigned (fs_dict c) qp p))
     \<and> ((key, FieldFilterAttr p) \<in> set (fs_dict c) \<and> map_of qp key = Some v \<longrightarrow>
          v \<in> set (assigned (fs_dict c) qp p))
     \<and> (filter (\<lambda>(k, a). a = FieldFilterAttr p) (fs_dict c) = [(key, FieldFilterAttr p)] \<and>
        map_of qp key = Some v \<longrightarrow>
          fvalue (fst (FilterSet_filter_queryset db c qp h) p) = v)"
proof (intro conjI impI)
  assume a: "snd (snd (FilterSet_filter_queryset db c qp h)) = Inr qs"
  show "fvalue (fst (FilterSet_filter_queryset db c qp h) p) =
       (if assigned (fs_dict c) qp p = [] then fvalue (h p)
        else last (assigned (fs_dict c) qp p))"
    by (rule FilterSet_fvalue [OF a])
  show "v \<in> set (assigned (fs_dict c) qp p)"
    if "(key, FieldFilterAttr p) \<in> set (fs_dict c) \<and> map_of qp key = Some v"
    using that assigned_mem by blast
  show "fvalue (fst (FilterSet_filter_queryset db c qp h) p) = v"
    if "filter (\<lambda>(k, a). a = FieldFilterAttr p) (fs_dict c) = [(key, FieldFilterAttr p)] \<and>
        map_of qp key = Some v"
  proof -
    from that have "assigned (fs_dict c) qp p = [v]" by (simp add: assigned_filter)
    then show ?thesis by (simp add: FilterSet_fvalue [OF a])
  qed
qed

text \<open>
  After one instance of \<open>UserFilterSet\<close> has filtered with \<open>age=18\<close>, the age filter of
  the class holds 18, where it held \<open>None\<close>; it still does after another instance has
  filtered with no parameters.
\<close>

theorem filterset_assigns_to_shared_filters_witness:
  "snd (snd (FilterSet_filter_queryset db_ok UserFilterSet params0 store0)) =
     Inr \<lparr>qs_model = ''User'',
          qs_filters = [[(''age__gte'', PInt 18)], [(''tag_id__in'', PList [PInt 1, PInt 2])]]\<rparr> \<and>
   filter (\<lambda>(k, a). a = FieldFilterAttr 0) (fs_dict UserFilterSet) = [(''age'', FieldFilterAttr 0)] \<and>
   map_of params0 ''age'' = Some (PInt 18) \<and>
   fvalue (store0 0) = PNone \<and>
   fvalue (fst (FilterSet_filter_queryset db_ok UserFilterSet params0 store0) 0) = PInt 18 \<and>
   fvalue (fst (FilterSet_filter_queryset db_ok UserFilterSet []
                  (fst (FilterSet_filter_queryset db_ok UserFilterSet params0 store0))) 0) = PInt 18"
proof -
  have r: "snd (snd (FilterSet_filter_queryset db_ok UserFilterSet params0 store0)) =
     Inr \<lparr>qs_model = ''User'',
          qs_filters = [[(''age__gte'', PInt 18)], [(''tag_id__in'', PList [PInt 1, PInt 2])]]\<rparr>"
    by (simp add: store_defs age_gte_def params0_def db_ok_def fs_eval_defs)
  have f: "filter (\<lambda>(k, a). a = FieldFilterAttr 0) (fs_dict UserFilterSet) =
      [(''age'', FieldFilterAttr 0)]"
    "map_of params0 ''age'' = Some (PInt 18)" "fvalue (store0 0) = PNone"
    by (simp_all add: store_defs age_gte_def params0_def)
  from filterset_assigns_to_shared_filters [OF r, of 0 "''age''" "PInt 18"]
  have "filter (\<lambda>(k, a). a = FieldFilterAttr 0) (fs_dict UserFilterSet) =
          [(''age'', FieldFilterAttr 0)] \<and> map_of params0 ''age'' = Some (PInt 18) \<longrightarrow>
        fvalue (fst (FilterSet_filter_queryset db_ok UserFilterSet params0 store0) 0) = PInt 18"
    by blast
  with f have v: "fvalue (fst (FilterSet_filter_queryset db_ok UserFilterSet params0 store0) 0) = PInt 18"
    by blast
  let ?h1 = "fst (FilterSet_filter_queryset db_ok UserFilterSet params0 store0)"
  have r2: "snd (snd (FilterSet_filter_queryset db_ok UserFilterSet [] ?h1)) =
      Inr \<lparr>qs_model = ''User'', qs_filters = []\<rparr>"
    by (simp add: UserFilterSet_def user_model_def FilterSet_filter_queryset_def get_queryset_def)
  have "assigned (fs_dict UserFilterSet) [] 0 = []"
    by (simp add: UserFilterSet_def assigned_def)
  moreover from filterset_assigns_to_shared_filters [OF r2, of 0]
  have "fvalue (fst (FilterSet_filter_queryset db_ok UserFilterSet [] ?h1) 0) =
      (if assigned (fs_dict UserFilterSet) [] 0 = [] then fvalue (?h1 0)
       else last (assigned (fs_dict UserFilterSet) [] 0))"
    by blast
  ultimately have "fvalue (fst (FilterSet_filter_queryset db_ok UserFilterSet [] ?h1) 0) = PInt 18"
    using v by simp
  with r f v show ?thesis by simp
qed

subsection \<open>The check of the declared fields\<close>

lemma fields_loop_ok: "set names \<subseteq> set ms \<Longrightarrow> fields_loop names ms = Inr ()"
  by (induction names) auto

lemma fields_loop_bad:
  "\<not> set names \<subseteq> set ms \<Longrightarrow>
     fields_loop names ms = Inl (Exception ''this field does not belong to model'')"
  by (induction names) auto

lemma filter_fields_of_set:
  "set (filter_fields_of attrs h) = {field_name (h p) | key p. (key, FieldFilterAttr p) \<in> set attrs}"
  by (induction attrs) (auto simp: filter_fields_of_def split: attribute.splits)

lemma check_fields_appearance_iff:
  "check_fields_appearance attrs (Some m) h =
     (if \<exists>key p. (key, FieldFilterAttr p) \<in> set attrs \<and> field_name (h p) \<notin> set (model_field_names m)
      then Inl (Exception ''this field does not belong to model'') else Inr ())"
proof (cases "set (filter_fields_of attrs h) \<subseteq> set (model_field_names m)")
  case True
  then show ?thesis
    by (auto simp: check_fields_appearance_def Let_def fields_loop_ok filter_fields_of_set)
next
  case False
  then show ?thesis
    by (auto simp: check_fields_appearance_def Let_def fields_loop_bad filter_fields_of_set)
qed

lemma declared_fields_iff:
  "(\<exists>key p. (key, FieldFilterAttr p) \<in> set attrs \<and> field_name (h p) \<notin> set ms) =
     (\<not> set (filter_fields_of attrs h) \<subseteq> set ms)"
  by (auto simp: filter_fields_of_set)

lemma add_fields_pair:
  "add_fields dc [(key, FTuple [ann, None])] =
     (if key = ''cls'' then Inl (TypeError ''add_fields() got multiple values for argument cls'')
      else Inr (dc\<lparr>model_fields :=
                  dict_set (model_fields dc) key
                    \<lparr>annotation = py_Optional ann, default = PNone\<rparr>\<rparr>))"
  by (simp add: add_fields_def dict_update_def)

lemma instance_annotations_concrete:
  "cls f \<in> set concrete_classes \<Longrightarrow> \<exists>anns. instance_annotations f = Inr anns"
  by (auto simp: concrete_classes_def instance_annotations_def List.map_filter_simps)

lemma dependencies_loop_error:
  "dependencies_loop attrs h dc = Inl e \<Longrightarrow>
     (\<exists>m. e = AttributeError m) \<or> (\<exists>m. e = TypeError m)"
proof (induction attrs h dc rule: dependencies_loop.induct)
  case (3 key p rest h dc)
  then show ?case
    by (auto simp: add_fields_pair instance_annotations_def split: sum.splits if_splits list.splits)
qed simp_all

lemma dependencies_loop_succeeds:
  "filters_concrete attrs h \<Longrightarrow> no_cls_filter attrs \<Longrightarrow>
     \<exists>d. dependencies_loop attrs h dc = Inr d"
proof (induction attrs h dc rule: dependencies_loop.induct)
  case (3 key p rest h dc)
  from "3.prems" have "cls (h p) \<in> set concrete_classes" and r: "filters_concrete rest h"
    and k: "key \<noteq> ''cls''" and n: "no_cls_filter rest"
    by (simp_all add: filters_concrete_def no_cls_filter_def)
  then obtain anns where a: "instance_annotations (h p) = Inr anns"
    using instance_annotations_concrete by blast
  have af: "add_fields dc [(key, FTuple [map_of anns ''value'', None])] =
      Inr (dc\<lparr>model_fields :=
             dict_set (model_fields dc) key
               \<lparr>annotation = py_Optional (map_of anns ''value''), default = PNone\<rparr>\<rparr>)"
    by (simp add: add_fields_pair k)
  show ?case
    using "3.IH" [OF a af r n] by (simp add: a af)
qed (simp_all add: filters_concrete_def no_cls_filter_def)

lemma dependencies_loop_cls:
  "\<not> no_cls_filter attrs \<Longrightarrow> \<exists>e. dependencies_loop attrs h dc = Inl e"
proof (induction attrs h dc rule: dependencies_loop.induct)
  case (1 h dc)
  then show ?case by (simp add: no_cls_filter_def)
next
  case (2 key rest h dc)
  then show ?case by (simp add: no_cls_filter_def)
next
  case (3 key p rest h dc)
  show ?case
  proof (cases "instance_annotations (h p)")
    case (Inl e)
    then show ?thesis by simp
  next
    case (Inr anns)
    show ?thesis
    proof (cases "key = ''cls''")
      case True
      then show ?thesis by (simp add: Inr add_fields_pair)
    next
      case False
      then have af: "add_fields dc [(key, FTuple [map_of anns ''value'', None])] =
          Inr (dc\<lparr>model_fields :=
                 dict_set (model_fields dc) key
                   \<lparr>annotation = py_Optional (map_of anns ''value''), default = PNone\<rparr>\<rparr>)"
        by (simp add: add_fields_pair)
      from "3.prems" False have n: "\<not> no_cls_filter rest"
        by (simp add: no_cls_filter_def)
      from "3.IH" [OF Inr af n] show ?thesis by (simp add: Inr af)
    qed
  qed
qed

text \<open>
  C3. \<open>to_dependencies\<close> validates the declared filters' field names against the
  fields of the bound model: it raises \<open>Exception("this field does not belong to
  model")\<close> exactly when a model is bound and some declared field filter names a field
  that is not among the model's field names. When every declared filter names a field
  of the model (the filters being objects of the six concrete classes), it raises
  nothing and returns the schema class, unless a filter attribute is named \<open>cls\<close>: that
  keyword the call of \<open>add_fields\<close> refuses with a \<open>TypeError\<close>.
\<close>

theorem declared_fields_are_validated:
  "((to_dependencies c h = Inl (Exception ''this field does not belong to model'')) =
      (\<exists>m. fs_model c = Some m \<and>
         (\<exists>key p. (key, FieldFilterAttr p) \<in> set (fs_dict c) \<and>
            field_name (h p) \<notin> set (model_field_names m))))
   \<and> (fs_model c = Some m \<and> filters_concrete (fs_dict c) h \<and>
        \<not> (\<exists>key p. (key, FieldFilterAttr p) \<in> set (fs_dict c) \<and>
            field_name (h p) \<notin> set (model_field_names m)) \<longrightarrow>
        (\<exists>d. to_dependencies c h = Inr d) = no_cls_filter (fs_dict c))"
proof (cases "fs_model c")
  case None
  then show ?thesis by (simp add: to_dependencies_def check_fields_appearance_def Let_def)
next
  case (Some m')
  show ?thesis
  proof (cases "\<exists>key p. (key, FieldFilterAttr p) \<in> set (fs_dict c) \<and>
                  field_name (h p) \<notin> set (model_field_names m')")
    case True
    then show ?thesis
      using Some by (auto simp: to_dependencies_def Let_def check_fields_appearance_iff)
  next
    case False
    then have ok: "check_fields_appearance (fs_dict c) (Some m') h = Inr ()"
      by (simp add: check_fields_appearance_iff)
    have r: "to_dependencies c h =
       dependencies_loop (fs_dict c) h (create_dynamic_class (fs_name c @ ''Dependencies''))"
      by (simp add: to_dependencies_def Let_def Some ok)
    have "to_dependencies c h \<noteq> Inl (Exception ''this field does not belong to model'')"
      using dependencies_loop_error [of "fs_dict c" h] by (auto simp: r)
    moreover have "filters_concrete (fs_dict c) h \<longrightarrow>
        (\<exists>d. to_dependencies c h = Inr d) = no_cls_filter (fs_dict c)"
    proof (cases "no_cls_filter (fs_dict c)")
      case True
      then show ?thesis
        using dependencies_loop_succeeds [of "fs_dict c" h] by (simp add: r)
    next
      case False
      from dependencies_loop_cls [OF False, of h "create_dynamic_class (fs_name c @ ''Dependencies'')"]
      obtain e where "to_dependencies c h = Inl e" by (auto simp: r)
      with False show ?thesis by simp
    qed
    ultimately show ?thesis using Some False by auto
  qed
qed

text \<open>
  \<open>NickFilterSet\<close> declares a filter on \<open>nickname\<close>, which the model \<open>User\<close> does not
  have; every filter of \<open>UserFilterSet\<close> names a field of the model.
\<close>

theorem declared_fields_are_validated_witness:
  "fs_model NickFilterSet = Some user_model \<and>
   (''nick'', FieldFilterAttr 4) \<in> set (fs_dict NickFilterSet) \<and>
   field_name (store0 4) \<notin> set (model_field_names user_model) \<and>
   to_dependencies NickFilterSet store0 = Inl (Exception ''this field does not belong to model'') \<and>
   fs_model UserFilterSet = Some user_model \<and> filters_concrete (fs_dict UserFilterSet) store0 \<and>
   no_cls_filter (fs_dict UserFilterSet) \<and>
   set (filter_fields_of (fs_dict UserFilterSet) store0) \<subseteq> set (model_field_names user_model) \<and>
   to_dependencies UserFilterSet store0 \<noteq> Inl (Exception ''this field does not belong to model'') \<and>
   (\<exists>d. to_dependencies UserFilterSet store0 = Inr d)"
proof -
  have nick: "fs_model NickFilterSet = Some user_model"
    "(''nick'', FieldFilterAttr 4) \<in> set (fs_dict NickFilterSet)"
    "field_name (store0 4) \<notin> set (model_field_names user_model)"
    by (simp_all add: store_defs model_field_names_def)
  have user: "fs_model UserFilterSet = Some user_model"
    "filters_concrete (fs_dict UserFilterSet) store0"
    "no_cls_filter (fs_dict UserFilterSet)"
    "set (filter_fields_of (fs_dict UserFilterSet) store0) \<subseteq> set (model_field_names user_model)"
    by (simp_all add: store_defs age_gte_def model_field_names_def filters_concrete_def
          no_cls_filter_def filter_fields_of_def concrete_classes_def)
  from nick declared_fields_are_validated [of NickFilterSet store0 user_model]
  have "to_dependencies NickFilterSet store0 =
      Inl (Exception ''this field does not belong to model'')"
    by blast
  moreover from user declared_fields_are_validated [of UserFilterSet store0 user_model]
  have "to_dependencies UserFilterSet store0 \<noteq>
      Inl (Exception ''this field does not belong to model'') \<and>
      (\<exists>d. to_dependencies UserFilterSet store0 = Inr d)"
    by (simp add: declared_fields_iff)
  ultimately show ?thesis using nick user by simp
qed

subsection \<open>The schema of \<open>to_dependencies\<close>\<close>

lemma dict_set_fresh: "k \<notin> fst ` set d \<Longrightarrow> dict_set d k v = d @ [(k, v)]"
  by (induction d) auto

lemma dict_update_distinct:
  "distinct (map fst xs) \<Longrightarrow> fst ` set xs \<inter> fst ` set d = {} \<Longrightarrow> dict_update d xs = d @ xs"
proof (induction xs arbitrary: d)
  case Nil
  then show ?case by (simp add: dict_update_def)
next
  case (Cons x xs)
  obtain k v where x: "x = (k, v)" by (cases x)
  from Cons.prems x have fresh: "k \<notin> fst ` set d" by auto
  have "dict_update d (x # xs) = dict_update (dict_set d k v) xs"
    by (simp add: dict_update_def x)
  also have "\<dots> = dict_update (d @ [(k, v)]) xs" by (simp add: dict_set_fresh [OF fresh])
  also have "\<dots> = (d @ [(k, v)]) @ xs"
    using Cons.prems x by (intro Cons.IH) auto
  finally show ?case by (simp add: x)
qed

lemma expected_fields_Cons:
  "expected_fields ((k, a) # xs) h =
     (case a of OtherAttr \<Rightarrow> []
      | FieldFilterAttr p \<Rightarrow>
          [(k, \<lparr>annotation = py_Optional (value_annotation (h p)), default = PNone\<rparr>)])
     @ expected_fields xs h"
  by (simp add: expected_fields_def)

lemma expected_fields_keys:
  "fst ` set (expected_fields attrs h) \<subseteq> fst ` set attrs"
proof (induction attrs)
  case Nil
  then show ?case by (simp add: expected_fields_def)
next
  case (Cons x xs)
  obtain k a where x: "x = (k, a)" by (cases x)
  from Cons.IH show ?case by (cases a) (auto simp: x expected_fields_Cons)
qed

lemma expected_fields_distinct:
  "distinct (map fst attrs) \<Longrightarrow> distinct (map fst (expected_fields attrs h))"
proof (induction attrs)
  case Nil
  then show ?case by (simp add: expected_fields_def)
next
  case (Cons x xs)
  obtain k a where x: "x = (k, a)" by (cases x)
  from Cons.prems x have "k \<notin> fst ` set xs" and d: "distinct (map fst xs)" by auto
  with expected_fields_keys [of xs h] have "k \<notin> fst ` set (expected_fields xs h)" by blast
  with Cons.IH [OF d] show ?case by (cases a) (simp_all add: x expected_fields_Cons)
qed

lemma dependencies_loop_fields:
  "dependencies_loop attrs h dc = Inr d \<Longrightarrow>
     dep_name d = dep_name dc \<and>
     model_fields d = dict_update (model_fields dc) (expected_fields attrs h)"
proof (induction attrs h dc rule: dependencies_loop.induct)
  case (1 h dc)
  then show ?case by (simp add: expected_fields_def dict_update_def)
next
  case (2 key rest h dc)
  then show ?case by (simp add: expected_fields_Cons)
next
  case (3 key p rest h dc)
  from "3.prems" obtain anns where a: "instance_annotations (h p) = Inr anns"
    by (cases "instance_annotations (h p)") auto
  let ?fi = "\<lparr>annotation = py_Optional (map_of anns ''value''), default = PNone\<rparr>"
  let ?dc = "dc\<lparr>model_fields := dict_set (model_fields dc) key ?fi\<rparr>"
  from "3.prems" a have k: "key \<noteq> ''cls''"
    by (auto simp: add_fields_pair split: if_splits)
  then have af: "add_fields dc [(key, FTuple [map_of anns ''value'', None])] = Inr ?dc"
    by (simp add: add_fields_pair)
  from "3.prems" a af have r: "dependencies_loop rest h ?dc = Inr d"
    by simp
  from "3.IH" [OF a af r]
  have ih: "dep_name d = dep_name dc \<and>
      model_fields d = dict_update (dict_set (model_fields dc) key ?fi) (expected_fields rest h)"
    by simp
  have e: "expected_fields ((key, FieldFilterAttr p) # rest) h = (key, ?fi) # expected_fields rest h"
    by (simp add: expected_fields_Cons value_annotation_def a)
  show ?case using ih by (simp add: e dict_update_def)
qed

text \<open>
  The schema when \<open>to_dependencies\<close> returns: the class is named after the filter set,
  and it has one field per declared field filter, in declaration order, named after the
  attribute, with the default \<open>None\<close> and the annotation \<open>Optional\<close> of what the
  filter object's \<open>__annotations__\<close> holds for \<open>value\<close>. Other attributes add no field.
\<close>

lemma to_dependencies_schema:
  assumes "to_dependencies c h = Inr d" and "distinct (map fst (fs_dict c))"
  shows "d = \<lparr>dep_name = fs_name c @ ''Dependencies'',
              model_fields = expected_fields (fs_dict c) h\<rparr>"
proof -
  from assms(1) have l: "dependencies_loop (fs_dict c) h
      (create_dynamic_class (fs_name c @ ''Dependencies'')) = Inr d"
    by (simp add: to_dependencies_def Let_def split: sum.splits)
  from dependencies_loop_fields [OF l]
  have "dep_name d = fs_name c @ ''Dependencies''"
    and "model_fields d = dict_update [] (expected_fields (fs_dict c) h)"
    by (simp_all add: create_dynamic_class_def)
  moreover have "dict_update [] (expected_fields (fs_dict c) h) = [] @ expected_fields (fs_dict c) h"
    by (rule dict_update_distinct) (simp_all add: expected_fields_distinct [OF assms(2)])
  ultimately show ?thesis by simp
qed

text \<open>
  C7, at a filter set that declares a \<open>NumberRangeFilter\<close>. The class
  \<open>NumberRangeFilter\<close> annotates \<open>value\<close> only inside \<open>__init__\<close>, so the annotations
  seen through the object are those of \<open>BaseRangeFilter\<close>, which have no \<open>value\<close>: the
  schema field \<open>price\<close> gets the annotation \<open>Optional[None]\<close>, that is \<open>NoneType\<close>,
  where the field \<open>name\<close> of the \<open>CharFilter\<close> gets \<open>Optional[str]\<close>.
\<close>

theorem number_range_schema_field:
  "cls (store0 3) = NumberRangeFilter \<and>
   instance_annotations (store0 3) = Inr [(''value_min'', TInt), (''value_max'', TInt)] \<and>
   to_dependencies ProductFilterSet store0 =
     Inr \<lparr>dep_name = ''ProductFilterSetDependencies'',
          model_fields =
            [(''name'', \<lparr>annotation = TUnion [TStr, TNoneType], default = PNone\<rparr>),
             (''price'', \<lparr>annotation = TNoneType, default = PNone\<rparr>)]\<rparr>"
  by (simp add: store_defs dep_defs Let_def)

end
